theory Spec2Isabelle
  imports Complex_Main "HOL-Library.Char_ord" "HOL-Library.List_Lexorder" "HOL-Library.AList"
    "HOL-Library.Sublist"
begin

section \<open>The Iris notebook: a Keras model trained with two callbacks\<close>

text \<open>
  The repository is one notebook, \<^verbatim>\<open>IrisKerasCallback.ipynb\<close>. Its code cells load a
  dataset, build and compile a \<^verbatim>\<open>tf.keras.Sequential\<close> model, call \<^verbatim>\<open>fit\<close> with a
  TensorBoard and a ModelCheckpoint callback, and list the two directories the callbacks
  wrote. Three layers of definitions follow:
  \<^item> the Python built-ins the notebook's expressions use (\<^verbatim>\<open>str.format\<close>,
    \<^verbatim>\<open>strftime\<close>);
  \<^item> the objects and routines of the libraries the notebook calls (scikit-learn, Keras).
    Their code is not part of the repository; each is modelled from what the specification
    and the outputs recorded in the notebook say about it, and is marked as such;
  \<^item> the notebook's own cells, statement by statement.
\<close>

subsection \<open>Python built-ins\<close>

text \<open>
  The built-in exceptions that the modelled code can raise; \<^verbatim>\<open>NameError\<close> is what reading
  a name that no cell has bound raises.
\<close>

datatype error = KeyError string | IndexError | ValueError | NameError string | TypeError

text \<open>\<^verbatim>\<open>str(n)\<close> for a non-negative integer: its decimal digits, no padding.\<close>

definition digit :: "nat \<Rightarrow> char" where
  "digit n = ''0123456789'' ! n"

fun dec :: "nat \<Rightarrow> string" where
  "dec n = (if n < 10 then [digit n] else dec (n div 10) @ [digit (n mod 10)])"

declare dec.simps [simp del]

definition str_int :: "int \<Rightarrow> string" where
  "str_int i = (if i < 0 then CHR ''-'' # dec (nat (- i)) else dec (nat i))"

text \<open>\<^verbatim>\<open>s.rjust(width, fill)\<close>: pad on the left; a string already that wide is kept whole.\<close>

definition rjust :: "nat \<Rightarrow> char \<Rightarrow> string \<Rightarrow> string" where
  "rjust width fill s = replicate (width - length s) fill @ s"

text \<open>The values the notebook passes to \<^verbatim>\<open>str.format\<close>: strings and integers.\<close>

datatype pyval = PyStr string | PyInt int

definition is_digit :: "char \<Rightarrow> bool" where
  "is_digit c = (c \<in> set ''0123456789'')"

definition digit_value :: "char \<Rightarrow> nat" where
  "digit_value c = length (takeWhile (\<lambda>d. d \<noteq> c) ''0123456789'')"

definition number :: "string \<Rightarrow> nat" where
  "number ds = foldl (\<lambda>n c. 10 * n + digit_value c) 0 ds"

text \<open>
  The format specifications of the form \<^verbatim>\<open>[0][width][d]\<close> applied to an integer, as in
  \<^verbatim>\<open>{epoch:02d}\<close>. With the \<^verbatim>\<open>0\<close> flag the padding is zeros placed after the sign;
  without it, spaces on the left. Any other specification, and any specification for a
  string, is reported as \<^verbatim>\<open>ValueError\<close> (the rest of Python's mini-language is not
  modelled).
\<close>

definition format_int :: "string \<Rightarrow> int \<Rightarrow> error + string" where
  "format_int spec i =
     (let body = (if spec \<noteq> [] \<and> last spec = CHR ''d'' then butlast spec else spec);
          zero = (body \<noteq> [] \<and> hd body = CHR ''0'');
          width = (if zero then tl body else body)
      in if \<not> list_all is_digit width then Inl ValueError
         else if zero then
           (if i < 0 then Inr (CHR ''-'' # rjust (number width - 1) CHR ''0'' (dec (nat (- i))))
            else Inr (rjust (number width) CHR ''0'' (dec (nat i))))
         else Inr (rjust (number width) CHR '' '' (str_int i)))"

definition format_value :: "pyval \<Rightarrow> string \<Rightarrow> error + string" where
  "format_value v spec =
     (case v of
        PyStr s \<Rightarrow> if spec = [] then Inr s else Inl ValueError
      | PyInt i \<Rightarrow> format_int spec i)"

text \<open>
  \<^verbatim>\<open>template.format(*args, **kwargs)\<close> for templates whose replacement fields are
  \<^verbatim>\<open>{}\<close> (the next positional argument) or \<^verbatim>\<open>{name}\<close>, \<^verbatim>\<open>{name:spec}\<close> (a keyword
  argument). A missing positional argument raises \<^verbatim>\<open>IndexError\<close>, a missing keyword
  \<^verbatim>\<open>KeyError\<close>, an unclosed field or a lone closing brace \<^verbatim>\<open>ValueError\<close>. Keyword
  arguments the template does not name are ignored. Doubled braces, conversions, and field
  names with an attribute or an index are outside these templates and not modelled.
\<close>

function format_str :: "string \<Rightarrow> pyval list \<Rightarrow> (string \<times> pyval) list \<Rightarrow> error + string" where
  "format_str [] args kwargs = Inr []"
| "format_str (c # cs) args kwargs =
     (if c = CHR ''{'' then
        (if CHR ''}'' \<notin> set cs then Inl ValueError
         else
           let field = takeWhile (\<lambda>x. x \<noteq> CHR ''}'') cs;
               rest = drop 1 (dropWhile (\<lambda>x. x \<noteq> CHR ''}'') cs);
               name = takeWhile (\<lambda>x. x \<noteq> CHR '':'') field;
               spec = drop 1 (dropWhile (\<lambda>x. x \<noteq> CHR '':'') field)
           in case (if name = [] then (case args of [] \<Rightarrow> Inl IndexError | a # _ \<Rightarrow> Inr a)
                    else (case map_of kwargs name of
                            None \<Rightarrow> Inl (KeyError name)
                          | Some v \<Rightarrow> Inr v)) of
                Inl e \<Rightarrow> Inl e
              | Inr v \<Rightarrow>
                  (case format_value v spec of
                     Inl e \<Rightarrow> Inl e
                   | Inr s \<Rightarrow>
                       (case format_str rest (if name = [] then tl args else args) kwargs of
                          Inl e \<Rightarrow> Inl e
                        | Inr t \<Rightarrow> Inr (s @ t))))
      else if c = CHR ''}'' then Inl ValueError
      else (case format_str cs args kwargs of Inl e \<Rightarrow> Inl e | Inr t \<Rightarrow> Inr (c # t)))"
  by pat_completeness auto
termination
  by (relation "measure (\<lambda>(s, args, kwargs). length s)")
     (auto simp: less_Suc_eq_le intro: order_trans [OF diff_le_self length_dropWhile_le])

text \<open>
  \<^verbatim>\<open>datetime.datetime\<close>: the value \<^verbatim>\<open>dt.datetime.now()\<close> returns. The wall clock is an
  input of the notebook, so every definition that reads it takes the time as an argument.
\<close>

record datetime =
  year :: nat
  month :: nat
  day :: nat
  hour :: nat
  minute :: nat
  second :: nat
  microsecond :: nat

text \<open>The ranges Python's \<^verbatim>\<open>datetime\<close> constructor enforces.\<close>

definition valid_datetime :: "datetime \<Rightarrow> bool" where
  "valid_datetime t =
     (1 \<le> year t \<and> year t \<le> 9999 \<and> 1 \<le> month t \<and> month t \<le> 12 \<and> 1 \<le> day t \<and> day t \<le> 31 \<and>
      hour t < 24 \<and> minute t < 60 \<and> second t < 60 \<and> microsecond t < 1000000)"

text \<open>
  \<^verbatim>\<open>t.strftime(fmt)\<close> for the directives \<^verbatim>\<open>%Y %m %d %H %M %S %%\<close>: the year in
  decimal (four digits from the year 1000 on; platforms differ on padding an earlier
  year, and this model does not pad), the other fields zero-padded to two digits. Another
  directive is copied unchanged.
\<close>

definition directive :: "char \<Rightarrow> datetime \<Rightarrow> string" where
  "directive c t =
     (if c = CHR ''Y'' then dec (year t)
      else if c = CHR ''m'' then rjust 2 CHR ''0'' (dec (month t))
      else if c = CHR ''d'' then rjust 2 CHR ''0'' (dec (day t))
      else if c = CHR ''H'' then rjust 2 CHR ''0'' (dec (hour t))
      else if c = CHR ''M'' then rjust 2 CHR ''0'' (dec (minute t))
      else if c = CHR ''S'' then rjust 2 CHR ''0'' (dec (second t))
      else if c = CHR ''%'' then ''%''
      else [CHR ''%'', c])"

fun strftime :: "datetime \<Rightarrow> string \<Rightarrow> string" where
  "strftime t (c # d # fmt) =
     (if c = CHR ''%'' then directive d t @ strftime t fmt else c # strftime t (d # fmt))"
| "strftime t fmt = fmt"

text \<open>\<^verbatim>\<open>os.path.dirname\<close> and \<^verbatim>\<open>os.path.basename\<close>: a path is split at its last slash.\<close>

definition basename :: "string \<Rightarrow> string" where
  "basename p = rev (takeWhile (\<lambda>c. c \<noteq> CHR ''/'') (rev p))"

definition dirname :: "string \<Rightarrow> string" where
  "dirname p = rev (drop 1 (dropWhile (\<lambda>c. c \<noteq> CHR ''/'') (rev p)))"

subsection \<open>The libraries the notebook calls\<close>

text \<open>
  Arrays are represented by their shape; their floating-point entries are not modelled.
\<close>

type_synonym ndarray = "nat list"

text \<open>
  Modelled from the spec: the dataset loader \<^verbatim>\<open>sklearn.datasets.load_iris\<close> is an external
  library routine (``loads a small tabular dataset''). The value it returns is fixed: the
  Iris table of 150 samples with 4 features each and one of 3 class labels per sample;
  the training output recorded in the notebook starts with \<^verbatim>\<open>Train on 150 samples\<close>.
\<close>

record bunch =
  data :: ndarray
  target :: ndarray
  feature_names :: "string list"
  target_names :: "string list"

definition load_iris :: bunch where
  "load_iris =
     \<lparr>data = [150, 4], target = [150],
      feature_names = [''sepal length (cm)'', ''sepal width (cm)'',
                       ''petal length (cm)'', ''petal width (cm)''],
      target_names = [''setosa'', ''versicolor'', ''virginica'']\<rparr>"

text \<open>
  The Keras objects the notebook constructs, with the arguments it can pass:
  \<^verbatim>\<open>tf.nn.relu\<close>, \<^verbatim>\<open>tf.keras.layers.Dense(units, activation=None, input_shape=None)\<close>,
  \<^verbatim>\<open>tf.keras.optimizers.Adam(learning_rate)\<close>,
  \<^verbatim>\<open>tf.keras.losses.SparseCategoricalCrossentropy(from_logits)\<close> and
  \<^verbatim>\<open>tf.keras.metrics.SparseCategoricalAccuracy()\<close>. The learning rate \<^verbatim>\<open>0.01\<close> is kept
  as the decimal fraction it is written as.
\<close>

datatype activation = relu

datatype layer =
  Dense (units: nat) (activation: "activation option") (input_shape: "nat list option")

datatype optimizer = Adam (learning_rate: rat)

datatype loss = SparseCategoricalCrossentropy (from_logits: bool)

datatype metric = SparseCategoricalAccuracy

record keras_model =
  layers :: "layer list"
  optimizer :: "optimizer option"
  loss :: "loss option"
  metrics :: "metric list"

text \<open>
  Modelled from the spec: the ``sequential model container'' of the framework.
  \<^verbatim>\<open>Sequential()\<close> is an empty stack of layers, \<^verbatim>\<open>add\<close> puts a layer on its end,
  \<^verbatim>\<open>compile\<close> records the optimizer, the loss and the metrics, and a forward pass feeds
  the input through the layers from the first added to the last. What one layer computes
  on floating-point tensors is the parameter \<open>apply_layer\<close>.
\<close>

definition Sequential :: keras_model where
  "Sequential = \<lparr>layers = [], optimizer = None, loss = None, metrics = []\<rparr>"

definition add :: "keras_model \<Rightarrow> layer \<Rightarrow> keras_model" where
  "add m l = m\<lparr>layers := layers m @ [l]\<rparr>"

definition compile :: "keras_model \<Rightarrow> optimizer \<Rightarrow> loss \<Rightarrow> metric list \<Rightarrow> keras_model" where
  "compile m opt l ms = m\<lparr>optimizer := Some opt, loss := Some l, metrics := ms\<rparr>"

definition call :: "(layer \<Rightarrow> 'v \<Rightarrow> 'v) \<Rightarrow> keras_model \<Rightarrow> 'v \<Rightarrow> 'v" where
  "call apply_layer m x = fold apply_layer (layers m) x"

text \<open>
  Modelled from the spec: \<^verbatim>\<open>model.summary()\<close>, from the table recorded in the notebook. A
  row gives the layer's class, the width of its output and its number of parameters; a
  dense layer with \<open>n\<close> inputs and \<open>u\<close> units has a kernel of \<open>n * u\<close> weights and \<open>u\<close>
  biases, all trainable. The first layer's inputs are the last entry of its
  \<^verbatim>\<open>input_shape\<close>; a model whose first layer has none is not built, and \<^verbatim>\<open>summary\<close>
  raises \<^verbatim>\<open>ValueError\<close>.
\<close>

definition class_name :: "layer \<Rightarrow> string" where
  "class_name l = (case l of Dense u a s \<Rightarrow> ''Dense'')"

definition count_params :: "nat \<Rightarrow> layer \<Rightarrow> nat" where
  "count_params n l = n * units l + units l"

fun summary_rows :: "nat \<Rightarrow> layer list \<Rightarrow> (string \<times> nat \<times> nat) list" where
  "summary_rows n [] = []"
| "summary_rows n (l # ls) = (class_name l, units l, count_params n l) # summary_rows (units l) ls"

record model_summary =
  rows :: "(string \<times> nat \<times> nat) list"
  total_params :: nat
  trainable_params :: nat
  non_trainable_params :: nat

definition input_dim :: "keras_model \<Rightarrow> nat option" where
  "input_dim m =
     (case layers m of
        [] \<Rightarrow> None
      | l # ls \<Rightarrow> (case input_shape l of
                    None \<Rightarrow> None
                  | Some shape \<Rightarrow> if shape = [] then None else Some (last shape)))"

definition summary :: "keras_model \<Rightarrow> error + model_summary" where
  "summary m =
     (case input_dim m of
        None \<Rightarrow> Inl ValueError
      | Some n \<Rightarrow>
          (let rs = summary_rows n (layers m); total = sum_list (map (\<lambda>(c, u, p). p) rs)
           in Inr \<lparr>rows = rs, total_params = total, trainable_params = total,
                   non_trainable_params = 0\<rparr>))"

text \<open>
  The two callback classes the notebook instantiates,
  \<^verbatim>\<open>tf.keras.callbacks.TensorBoard(log_dir)\<close> and
  \<^verbatim>\<open>tf.keras.callbacks.ModelCheckpoint(filepath, save_freq)\<close>.
\<close>

datatype callback =
  TensorBoard (log_dir: string)
| ModelCheckpoint (filepath: string) (save_freq: string)

definition qualified_name :: "callback \<Rightarrow> string" where
  "qualified_name cb =
     (case cb of
        TensorBoard d \<Rightarrow> ''tf.keras.callbacks.TensorBoard''
      | ModelCheckpoint f s \<Rightarrow> ''tf.keras.callbacks.ModelCheckpoint'')"

text \<open>
  The part of the file system the callbacks touch: the saved models by path, each holding
  the parameters (of an arbitrary type \<open>'w\<close>) it was saved with, and the directories.
\<close>

record 'w world =
  files :: "(string \<times> 'w) list"
  dirs :: "string list"

text \<open>
  Modelled from the spec: the callback hooks. A callback is ``a hook function registered
  with the training routine, invoked at defined points (e.g., end of epoch)'', and a
  checkpoint is ``a periodic snapshot of model parameters written to disk by the
  framework's built-in checkpoint callback'', in ``a directory of per-epoch checkpoint files
  named by epoch number''; the TensorBoard callback keeps its logs in the directory it was
  given. The training routine counts epochs from 0; the file name is the \<^verbatim>\<open>filepath\<close>
  template formatted with the epoch number counted from 1, as the progress lines
  (\<^verbatim>\<open>Epoch 1/50\<close> to \<^verbatim>\<open>Epoch 50/50\<close>) and the directory listing (\<^verbatim>\<open>model01.h5\<close> to
  \<^verbatim>\<open>model50.h5\<close>) recorded in the notebook show. An existing file is overwritten. A
  \<^verbatim>\<open>save_freq\<close> other than \<^verbatim>\<open>'epoch'\<close> saves by batch count, which is not modelled.
\<close>

definition on_train_begin :: "callback \<Rightarrow> 'w world \<Rightarrow> 'w world" where
  "on_train_begin cb fs =
     (case cb of
        TensorBoard d \<Rightarrow> fs\<lparr>dirs := List.insert d (dirs fs)\<rparr>
      | ModelCheckpoint f s \<Rightarrow> fs)"

definition on_epoch_end :: "callback \<Rightarrow> nat \<Rightarrow> 'w \<Rightarrow> 'w world \<Rightarrow> error + 'w world" where
  "on_epoch_end cb epoch w fs =
     (case cb of
        TensorBoard d \<Rightarrow> Inr fs
      | ModelCheckpoint f s \<Rightarrow>
          if s = ''epoch'' then
            (case format_str f [] [(''epoch'', PyInt (int epoch + 1))] of
               Inl e \<Rightarrow> Inl e
             | Inr path \<Rightarrow> Inr (fs\<lparr>files := AList.update path w (files fs)\<rparr>))
          else Inr fs)"

text \<open>The callbacks of the list run in order; an exception in one ends the run.\<close>

fun epoch_end_hooks ::
  "callback list \<Rightarrow> nat \<Rightarrow> 'w \<Rightarrow> 'w world \<Rightarrow> error option \<times> 'w world" where
  "epoch_end_hooks [] epoch w fs = (None, fs)"
| "epoch_end_hooks (cb # cbs) epoch w fs =
     (case on_epoch_end cb epoch w fs of
        Inl e \<Rightarrow> (Some e, fs)
      | Inr fs' \<Rightarrow> epoch_end_hooks cbs epoch w fs')"

text \<open>
  Modelled from the spec: the training routine \<^verbatim>\<open>fit\<close>, which ``trains for a fixed number
  of epochs''. It is the loop \<^verbatim>\<open>for epoch in range(epochs)\<close>: one epoch of training, then
  the end-of-epoch hooks. The numerical work of one epoch is the parameter \<open>step\<close>, a
  function of the model, the data, the batch size, the epoch and the parameters before
  it. The result is the \<^verbatim>\<open>History\<close> object: the epochs that were run, and here also the
  trained parameters. What \<^verbatim>\<open>verbose\<close> prints is not modelled.
\<close>

record 'w History =
  epoch :: "nat list"
  weights :: 'w

fun training_loop ::
  "(nat \<Rightarrow> 'w \<Rightarrow> 'w) \<Rightarrow> callback list \<Rightarrow> nat list \<Rightarrow> 'w History \<Rightarrow> 'w world
     \<Rightarrow> (error + 'w History) \<times> 'w world" where
  "training_loop step cbs [] h fs = (Inr h, fs)"
| "training_loop step cbs (e # es) h fs =
     (let w = step e (weights h)
      in case epoch_end_hooks cbs e w fs of
           (Some err, fs') \<Rightarrow> (Inl err, fs')
         | (None, fs') \<Rightarrow> training_loop step cbs es \<lparr>epoch = epoch h @ [e], weights = w\<rparr> fs')"

definition fit ::
  "(keras_model \<Rightarrow> ndarray \<Rightarrow> ndarray \<Rightarrow> nat \<Rightarrow> nat \<Rightarrow> 'w \<Rightarrow> 'w) \<Rightarrow> 'w \<Rightarrow> keras_model
     \<Rightarrow> ndarray \<Rightarrow> ndarray \<Rightarrow> nat \<Rightarrow> nat \<Rightarrow> nat \<Rightarrow> callback list \<Rightarrow> 'w world
     \<Rightarrow> (error + 'w History) \<times> 'w world" where
  "fit step w0 m x y batch_size epochs verbose cbs fs =
     training_loop (step m x y batch_size) cbs [0..<epochs] \<lparr>epoch = [], weights = w0\<rparr>
       (fold on_train_begin cbs fs)"

text \<open>
  The shell command \<^verbatim>\<open>ls\<close> on a directory named relative to the working directory: the
  names of its entries, sorted.
\<close>

definition ls :: "string \<Rightarrow> 'w world \<Rightarrow> string list" where
  "ls d fs =
     sort (remdups (map basename
       (filter (\<lambda>p. dirname p = ''./'' @ d) (map fst (files fs) @ dirs fs))))"

subsection \<open>The notebook\<close>

text \<open>
  The code cells, named by what they do; \<^verbatim>\<open>In [7]\<close> to \<^verbatim>\<open>In [12]\<close> are the execution
  counts recorded in the notebook.
\<close>

datatype cell =
  Imports        \<comment> \<open>\<^verbatim>\<open>In [7]\<close>: the imports, \<^verbatim>\<open>print(tf.__version__)\<close>\<close>
| LoadData       \<comment> \<open>\<^verbatim>\<open>In [8]\<close>: \<^verbatim>\<open>iris = load_iris()\<close>\<close>
| BuildModel     \<comment> \<open>\<^verbatim>\<open>In [9]\<close>: \<^verbatim>\<open>model = tf.keras.Sequential()\<close>, three \<^verbatim>\<open>add\<close>, \<^verbatim>\<open>summary\<close>\<close>
| CompileModel   \<comment> \<open>\<^verbatim>\<open>In [10]\<close>: \<^verbatim>\<open>model.compile(...)\<close>\<close>
| FitModel       \<comment> \<open>\<^verbatim>\<open>In [11]\<close>: \<^verbatim>\<open>callbacks = [...]\<close>, \<^verbatim>\<open>history = model.fit(...)\<close>\<close>
| Inspect        \<comment> \<open>\<^verbatim>\<open>In [12]\<close>: \<^verbatim>\<open>!ls logs checkpoints\<close>\<close>

definition cells :: "cell list" where
  "cells = [Imports, LoadData, BuildModel, CompileModel, FitModel, Inspect]"

text \<open>\<^verbatim>\<open>In [9]\<close>, the network.\<close>

definition n_input :: nat where
  "n_input = 4"

definition n_output :: nat where
  "n_output = 3"

definition model :: keras_model where
  "model =
     add (add (add Sequential
       (Dense 10 (Some relu) (Some [n_input])))
       (Dense 10 (Some relu) None))
       (Dense n_output None None)"

text \<open>\<^verbatim>\<open>In [10]\<close>, the optimizer, the loss and the metric.\<close>

definition compile_model :: "keras_model \<Rightarrow> keras_model" where
  "compile_model m =
     compile m (Adam (1 / 100)) (SparseCategoricalCrossentropy True) [SparseCategoricalAccuracy]"

text \<open>
  \<^verbatim>\<open>In [11]\<close>, the callbacks and the training; \<open>now\<close> is what \<^verbatim>\<open>dt.datetime.now()\<close> returns.
  \<open>fit_model\<close> is the cell as a function of the dataset, the model and the disk it finds.
\<close>

definition callbacks :: "datetime \<Rightarrow> error + callback list" where
  "callbacks now =
     (case format_str ''./logs/{}'' [PyStr (strftime now ''%Y-%m-%d-%H-%M-%S'')] [] of
        Inl e \<Rightarrow> Inl e
      | Inr dir \<Rightarrow>
          Inr [TensorBoard dir,
               ModelCheckpoint ''./checkpoints/model{epoch:02d}.h5'' ''epoch''])"

definition fit_model ::
  "(keras_model \<Rightarrow> ndarray \<Rightarrow> ndarray \<Rightarrow> nat \<Rightarrow> nat \<Rightarrow> 'w \<Rightarrow> 'w) \<Rightarrow> 'w \<Rightarrow> datetime \<Rightarrow> bunch
     \<Rightarrow> keras_model \<Rightarrow> 'w world \<Rightarrow> (error + 'w History) \<times> 'w world" where
  "fit_model step w0 now iris m fs =
     (case callbacks now of
        Inl e \<Rightarrow> (Inl e, fs)
      | Inr cbs \<Rightarrow> fit step w0 m (data iris) (target iris) 32 50 1 cbs fs)"

text \<open>\<^verbatim>\<open>In [12]\<close>; \<^verbatim>\<open>ls\<close> prints its arguments in sorted order.\<close>

definition inspect :: "'w world \<Rightarrow> (error + (string \<times> string list) list) \<times> 'w world" where
  "inspect fs = (Inr [(''checkpoints'', ls ''checkpoints'' fs), (''logs'', ls ''logs'' fs)], fs)"

text \<open>
  Running the notebook. The kernel holds the names the cells have bound so far (the
  globals of the session), the file system, the listing that \<^verbatim>\<open>In [12]\<close> printed, and the
  cells started so far. The values the notebook binds to names are modules and imported
  functions, numbers, the dataset, the model, the list of callbacks and the history.
\<close>

datatype 'w object =
  Module string
| Number nat
| Bunch bunch
| Model keras_model
| Callbacks "callback list"
| Hist "'w History"

record 'w kernel =
  executed :: "cell list"
  globals :: "(string \<times> 'w object) list"
  listing :: "(string \<times> string list) list"
  disk :: "'w world"

text \<open>
  A statement changes the kernel and may raise a built-in exception. Assigning to a name
  rebinds it; reading a name that is not bound raises \<^verbatim>\<open>NameError\<close>, and using a value
  as what it is not raises \<^verbatim>\<open>TypeError\<close>.
\<close>

type_synonym 'w statement = "'w kernel \<Rightarrow> error option \<times> 'w kernel"

definition assign :: "string \<Rightarrow> 'w object \<Rightarrow> 'w kernel \<Rightarrow> 'w kernel" where
  "assign x v k = k\<lparr>globals := AList.update x v (globals k)\<rparr>"

definition variable :: "string \<Rightarrow> 'w kernel \<Rightarrow> error + 'w object" where
  "variable x k = (case map_of (globals k) x of None \<Rightarrow> Inl (NameError x) | Some v \<Rightarrow> Inr v)"

definition as_number :: "error + 'w object \<Rightarrow> error + nat" where
  "as_number r = (case r of Inl e \<Rightarrow> Inl e | Inr (Number n) \<Rightarrow> Inr n | Inr _ \<Rightarrow> Inl TypeError)"

definition as_bunch :: "error + 'w object \<Rightarrow> error + bunch" where
  "as_bunch r = (case r of Inl e \<Rightarrow> Inl e | Inr (Bunch b) \<Rightarrow> Inr b | Inr _ \<Rightarrow> Inl TypeError)"

definition as_model :: "error + 'w object \<Rightarrow> error + keras_model" where
  "as_model r = (case r of Inl e \<Rightarrow> Inl e | Inr (Model m) \<Rightarrow> Inr m | Inr _ \<Rightarrow> Inl TypeError)"

definition as_callbacks :: "error + 'w object \<Rightarrow> error + callback list" where
  "as_callbacks r =
     (case r of Inl e \<Rightarrow> Inl e | Inr (Callbacks cbs) \<Rightarrow> Inr cbs | Inr _ \<Rightarrow> Inl TypeError)"

text \<open>
  \<open>reading r k f\<close> is a statement that needs the value \<open>r\<close>: if evaluating \<open>r\<close> raised, the
  statement raises the same and leaves the kernel \<open>k\<close> as it was.
\<close>

definition reading ::
  "error + 'a \<Rightarrow> 'w kernel \<Rightarrow> ('a \<Rightarrow> error option \<times> 'w kernel) \<Rightarrow> error option \<times> 'w kernel" where
  "reading r k f = (case r of Inl err \<Rightarrow> (Some err, k) | Inr v \<Rightarrow> f v)"

text \<open>Statements run one after another; the first that raises ends the cell.\<close>

fun run_steps :: "'w statement list \<Rightarrow> 'w statement" where
  "run_steps [] k = (None, k)"
| "run_steps (s # ss) k =
     (case s k of
        (Some err, k') \<Rightarrow> (Some err, k')
      | (None, k') \<Rightarrow> run_steps ss k')"

text \<open>
  \<^verbatim>\<open>In [7]\<close>: eight imports, each binding one name; then \<^verbatim>\<open>%pylab inline\<close> and the figure
  size, which set up plotting and are not modelled; then \<^verbatim>\<open>print(tf.__version__)\<close>.
\<close>

definition import_as :: "string \<Rightarrow> string \<Rightarrow> 'w statement" where
  "import_as x m k = (None, assign x (Module m) k)"

definition skip :: "'w statement" where
  "skip k = (None, k)"

definition imports_cell :: "'w statement list" where
  "imports_cell =
     [import_as ''np'' ''numpy'',
      import_as ''pd'' ''pandas'',
      import_as ''plt'' ''matplotlib.pyplot'',
      import_as ''dt'' ''datetime'',
      import_as ''tf'' ''tensorflow'',
      import_as ''load_iris'' ''sklearn.datasets.load_iris'',
      import_as ''confusion_matrix'' ''sklearn.metrics.confusion_matrix'',
      import_as ''pydot'' ''pydot'',
      skip,
      skip,
      \<lambda>k. reading (variable ''tf'' k) k (\<lambda>tf. (None, k))]"

text \<open>\<^verbatim>\<open>In [8]\<close>: \<^verbatim>\<open>iris = load_iris()\<close>.\<close>

definition load_cell :: "'w statement list" where
  "load_cell =
     [\<lambda>k. reading (variable ''load_iris'' k) k (\<lambda>f.
            (None, assign ''iris'' (Bunch load_iris) k))]"

text \<open>
  \<^verbatim>\<open>In [9]\<close>: the two sizes, the empty model, the three \<^verbatim>\<open>model.add(...)\<close>, each reading
  the names it mentions, and \<^verbatim>\<open>model.summary()\<close>.
\<close>

definition build_cell :: "'w statement list" where
  "build_cell =
     [\<lambda>k. (None, assign ''n_input'' (Number n_input) k),
      \<lambda>k. (None, assign ''n_output'' (Number n_output) k),
      \<lambda>k. reading (variable ''tf'' k) k (\<lambda>tf.
            (None, assign ''model'' (Model Sequential) k)),
      \<lambda>k. reading (as_model (variable ''model'' k)) k (\<lambda>m.
            reading (variable ''tf'' k) k (\<lambda>tf.
            reading (as_number (variable ''n_input'' k)) k (\<lambda>n.
              (None, assign ''model'' (Model (add m (Dense 10 (Some relu) (Some [n])))) k)))),
      \<lambda>k. reading (as_model (variable ''model'' k)) k (\<lambda>m.
            reading (variable ''tf'' k) k (\<lambda>tf.
              (None, assign ''model'' (Model (add m (Dense 10 (Some relu) None))) k))),
      \<lambda>k. reading (as_model (variable ''model'' k)) k (\<lambda>m.
            reading (variable ''tf'' k) k (\<lambda>tf.
            reading (as_number (variable ''n_output'' k)) k (\<lambda>n.
              (None, assign ''model'' (Model (add m (Dense n None None))) k)))),
      \<lambda>k. reading (as_model (variable ''model'' k)) k (\<lambda>m.
            reading (summary m) k (\<lambda>s. (None, k)))]"

text \<open>\<^verbatim>\<open>In [10]\<close>: \<^verbatim>\<open>model.compile(...)\<close> changes the model that the name is bound to.\<close>

definition compile_cell :: "'w statement list" where
  "compile_cell =
     [\<lambda>k. reading (as_model (variable ''model'' k)) k (\<lambda>m.
            reading (variable ''tf'' k) k (\<lambda>tf.
              (None, assign ''model'' (Model (compile_model m)) k)))]"

text \<open>
  \<^verbatim>\<open>In [11]\<close> in the kernel: \<^verbatim>\<open>callbacks = [...]\<close>, then \<^verbatim>\<open>history = model.fit(...)\<close> on
  what the names \<^verbatim>\<open>model\<close>, \<^verbatim>\<open>iris\<close> and \<^verbatim>\<open>callbacks\<close> are bound to. A \<^verbatim>\<open>fit\<close> that is
  interrupted after \<open>j\<close> of its epochs leaves on disk what a \<^verbatim>\<open>fit\<close> of \<open>j\<close> epochs leaves,
  and binds no history.
\<close>

definition callbacks_statement :: "datetime \<Rightarrow> 'w statement" where
  "callbacks_statement now k =
     reading (variable ''tf'' k) k (\<lambda>tf.
     reading (variable ''dt'' k) k (\<lambda>dt.
     reading (callbacks now) k (\<lambda>cbs.
       (None, assign ''callbacks'' (Callbacks cbs) k))))"

definition fit_statement ::
  "(keras_model \<Rightarrow> ndarray \<Rightarrow> ndarray \<Rightarrow> nat \<Rightarrow> nat \<Rightarrow> 'w \<Rightarrow> 'w) \<Rightarrow> 'w \<Rightarrow> nat option
     \<Rightarrow> 'w statement" where
  "fit_statement step w0 interrupted k =
     reading (as_model (variable ''model'' k)) k (\<lambda>m.
     reading (as_bunch (variable ''iris'' k)) k (\<lambda>iris.
     reading (as_callbacks (variable ''callbacks'' k)) k (\<lambda>cbs.
       case interrupted of
         None \<Rightarrow>
           (case fit step w0 m (data iris) (target iris) 32 50 1 cbs (disk k) of
              (Inl err, fs) \<Rightarrow> (Some err, k\<lparr>disk := fs\<rparr>)
            | (Inr h, fs) \<Rightarrow> (None, assign ''history'' (Hist h) (k\<lparr>disk := fs\<rparr>)))
       | Some j \<Rightarrow>
           (case fit step w0 m (data iris) (target iris) 32 (min j 50) 1 cbs (disk k) of
              (Inl err, fs) \<Rightarrow> (Some err, k\<lparr>disk := fs\<rparr>)
            | (Inr h, fs) \<Rightarrow> (None, k\<lparr>disk := fs\<rparr>)))))"

text \<open>\<^verbatim>\<open>In [12]\<close>: the listing is printed.\<close>

definition inspect_cell :: "'w statement list" where
  "inspect_cell =
     [\<lambda>k. case inspect (disk k) of
             (Inl err, fs) \<Rightarrow> (Some err, k\<lparr>disk := fs\<rparr>)
           | (Inr l, fs) \<Rightarrow> (None, k\<lparr>listing := l, disk := fs\<rparr>)]"

text \<open>
  A call into a library may raise whatever the library raises (a value of an arbitrary
  type \<open>'e\<close>). Which cell's calls do, with what, and how far the cell has come by then, is
  the argument \<open>raises\<close> of a run: \<open>raises c = Some (e, n)\<close> says that in cell \<open>c\<close> the
  statement after the first \<open>n\<close> raises \<open>e\<close>, and past the last statement it is the last
  that raises. \<open>source c (Some n)\<close> is the part of cell \<open>c\<close> that has taken effect by then,
  and \<open>source c None\<close> is the whole cell. In \<^verbatim>\<open>In [11]\<close> the exception comes from the list of
  callbacks (\<open>n = 0\<close>), from \<^verbatim>\<open>fit\<close> before it has touched the disk (\<open>n = 1\<close>), or from \<^verbatim>\<open>fit\<close>
  after \<open>j\<close> epochs (\<open>n = j + 2\<close>).
\<close>

definition steps :: "'w statement list \<Rightarrow> nat option \<Rightarrow> 'w statement" where
  "steps ss stop =
     (case stop of
        None \<Rightarrow> run_steps ss
      | Some n \<Rightarrow> run_steps (take (min n (length ss - 1)) ss))"

definition fit_cell ::
  "(keras_model \<Rightarrow> ndarray \<Rightarrow> ndarray \<Rightarrow> nat \<Rightarrow> nat \<Rightarrow> 'w \<Rightarrow> 'w) \<Rightarrow> 'w \<Rightarrow> datetime \<Rightarrow> nat option
     \<Rightarrow> 'w statement" where
  "fit_cell step w0 now stop =
     (case stop of
        None \<Rightarrow> run_steps [callbacks_statement now, fit_statement step w0 None]
      | Some 0 \<Rightarrow> run_steps []
      | Some (Suc 0) \<Rightarrow> run_steps [callbacks_statement now]
      | Some (Suc (Suc j)) \<Rightarrow> run_steps [callbacks_statement now, fit_statement step w0 (Some j)])"

definition source ::
  "(keras_model \<Rightarrow> ndarray \<Rightarrow> ndarray \<Rightarrow> nat \<Rightarrow> nat \<Rightarrow> 'w \<Rightarrow> 'w) \<Rightarrow> 'w \<Rightarrow> datetime \<Rightarrow> cell
     \<Rightarrow> nat option \<Rightarrow> 'w statement" where
  "source step w0 now c =
     (case c of
        Imports \<Rightarrow> steps imports_cell
      | LoadData \<Rightarrow> steps load_cell
      | BuildModel \<Rightarrow> steps build_cell
      | CompileModel \<Rightarrow> steps compile_cell
      | FitModel \<Rightarrow> fit_cell step w0 now
      | Inspect \<Rightarrow> steps inspect_cell)"

text \<open>
  Running a cell marks it as started and runs its statements. The notebook has no \<^verbatim>\<open>try\<close>
  statement: what the statements did before an exception stays done, and the exception
  is the outcome of the cell.
\<close>

datatype 'e exception = PythonError error | FrameworkError 'e

definition run_cell ::
  "(cell \<Rightarrow> ('e \<times> nat) option) \<Rightarrow> (cell \<Rightarrow> nat option \<Rightarrow> 'w statement) \<Rightarrow> cell \<Rightarrow> 'w kernel
     \<Rightarrow> 'e exception option \<times> 'w kernel" where
  "run_cell raises src c k =
     (let k' = k\<lparr>executed := executed k @ [c]\<rparr>
      in case raises c of
           None \<Rightarrow>
             (case src c None k' of
                (Some err, k'') \<Rightarrow> (Some (PythonError err), k'')
              | (None, k'') \<Rightarrow> (None, k''))
         | Some (e, n) \<Rightarrow>
             (case src c (Some n) k' of
                (Some err, k'') \<Rightarrow> (Some (PythonError err), k'')
              | (None, k'') \<Rightarrow> (Some (FrameworkError e), k'')))"

text \<open>
  The cells are run from top to bottom, each in the kernel the one before it left; a cell
  that raises ends the run.
\<close>

fun run_cells ::
  "(cell \<Rightarrow> ('e \<times> nat) option) \<Rightarrow> (cell \<Rightarrow> nat option \<Rightarrow> 'w statement) \<Rightarrow> cell list \<Rightarrow> 'w kernel
     \<Rightarrow> 'e exception option \<times> 'w kernel" where
  "run_cells raises src [] k = (None, k)"
| "run_cells raises src (c # cs) k =
     (case run_cell raises src c k of
        (Some e, k') \<Rightarrow> (Some e, k')
      | (None, k') \<Rightarrow> run_cells raises src cs k')"

definition notebook ::
  "(cell \<Rightarrow> ('e \<times> nat) option) \<Rightarrow> (keras_model \<Rightarrow> ndarray \<Rightarrow> ndarray \<Rightarrow> nat \<Rightarrow> nat \<Rightarrow> 'w \<Rightarrow> 'w)
     \<Rightarrow> 'w \<Rightarrow> datetime \<Rightarrow> 'w kernel \<Rightarrow> 'e exception option \<times> 'w kernel" where
  "notebook raises step w0 now = run_cells raises (source step w0 now) cells"

text \<open>A fresh kernel in a working directory with the given content.\<close>

definition fresh :: "'w world \<Rightarrow> 'w kernel" where
  "fresh fs = \<lparr>executed = [], globals = [], listing = [], disk = fs\<rparr>"

subsection \<open>Names used to state the properties\<close>

text \<open>
  The name of the checkpoint file of epoch \<open>k\<close>, in words: \<^verbatim>\<open>model\<close>, then \<open>k\<close> in decimal
  padded with zeros to two digits, then \<^verbatim>\<open>.h5\<close>; and the name of a log directory, the time
  as \<^verbatim>\<open>%Y-%m-%d-%H-%M-%S\<close>.
\<close>

definition epoch_file :: "nat \<Rightarrow> string" where
  "epoch_file k = ''model'' @ rjust 2 CHR ''0'' (dec k) @ ''.h5''"

definition stamp :: "datetime \<Rightarrow> string" where
  "stamp t =
     dec (year t) @ ''-'' @ rjust 2 CHR ''0'' (dec (month t)) @ ''-'' @
     rjust 2 CHR ''0'' (dec (day t)) @ ''-'' @ rjust 2 CHR ''0'' (dec (hour t)) @ ''-'' @
     rjust 2 CHR ''0'' (dec (minute t)) @ ''-'' @ rjust 2 CHR ''0'' (dec (second t))"

text \<open>The paths of both, from the notebook's working directory.\<close>

definition checkpoint_path :: "nat \<Rightarrow> string" where
  "checkpoint_path k = ''./checkpoints/'' @ epoch_file k"

definition log_path :: "datetime \<Rightarrow> string" where
  "log_path t = ''./logs/'' @ stamp t"

text \<open>The names of the entries of directory \<open>d\<close> among the paths \<open>P\<close>.\<close>

definition entries :: "string \<Rightarrow> string set \<Rightarrow> string set" where
  "entries d P = basename ` {p \<in> P. dirname p = ''./'' @ d}"

text \<open>
  The logits convention: the output layer applies no activation, so it emits raw scores,
  and the loss is built with \<^verbatim>\<open>from_logits=True\<close>, so it takes its input as raw scores.
\<close>

definition logits_convention :: "keras_model \<Rightarrow> bool" where
  "logits_convention m =
     (case loss m of
        None \<Rightarrow> False
      | Some l \<Rightarrow> layers m \<noteq> [] \<and> activation (last (layers m)) = None \<and> from_logits l)"

text \<open>The disk after the training cell of a run that reaches it.\<close>

definition trained ::
  "(keras_model \<Rightarrow> ndarray \<Rightarrow> ndarray \<Rightarrow> nat \<Rightarrow> nat \<Rightarrow> 'w \<Rightarrow> 'w) \<Rightarrow> 'w \<Rightarrow> datetime \<Rightarrow> 'w world
     \<Rightarrow> 'w world" where
  "trained step w0 now fs = snd (fit_model step w0 now load_iris (compile_model model) fs)"

text \<open>What a name is bound to in a kernel.\<close>

definition bound :: "string \<Rightarrow> 'w kernel \<Rightarrow> 'w object option" where
  "bound x k = map_of (globals k) x"

text \<open>The names that the imports of \<^verbatim>\<open>In [7]\<close> bind, in their order.\<close>

definition modules :: "(string \<times> 'w object) list" where
  "modules =
     [(''np'', Module ''numpy''),
      (''pd'', Module ''pandas''),
      (''plt'', Module ''matplotlib.pyplot''),
      (''dt'', Module ''datetime''),
      (''tf'', Module ''tensorflow''),
      (''load_iris'', Module ''sklearn.datasets.load_iris''),
      (''confusion_matrix'', Module ''sklearn.metrics.confusion_matrix''),
      (''pydot'', Module ''pydot'')]"

text \<open>
  The network written out, as \<^verbatim>\<open>In [9]\<close> has built it and as \<^verbatim>\<open>In [10]\<close> has compiled it.
\<close>

definition built :: keras_model where
  "built =
     \<lparr>layers = [Dense 10 (Some relu) (Some [4]), Dense 10 (Some relu) None, Dense 3 None None],
      optimizer = None, loss = None, metrics = []\<rparr>"

definition compiled :: keras_model where
  "compiled =
     \<lparr>layers = [Dense 10 (Some relu) (Some [4]), Dense 10 (Some relu) None, Dense 3 None None],
      optimizer = Some (Adam (1 / 100)), loss = Some (SparseCategoricalCrossentropy True),
      metrics = [SparseCategoricalAccuracy]\<rparr>"

text \<open>The state in which a run of the notebook ends, and its outcome.\<close>

definition final ::
  "(cell \<Rightarrow> ('e \<times> nat) option) \<Rightarrow> (keras_model \<Rightarrow> ndarray \<Rightarrow> ndarray \<Rightarrow> nat \<Rightarrow> nat \<Rightarrow> 'w \<Rightarrow> 'w)
     \<Rightarrow> 'w \<Rightarrow> datetime \<Rightarrow> 'w world \<Rightarrow> 'w kernel" where
  "final raises step w0 now fs = snd (notebook raises step w0 now (fresh fs))"

definition outcome ::
  "(cell \<Rightarrow> ('e \<times> nat) option) \<Rightarrow> (keras_model \<Rightarrow> ndarray \<Rightarrow> ndarray \<Rightarrow> nat \<Rightarrow> nat \<Rightarrow> 'w \<Rightarrow> 'w)
     \<Rightarrow> 'w \<Rightarrow> datetime \<Rightarrow> 'w world \<Rightarrow> 'e exception + (string \<times> string list) list" where
  "outcome raises step w0 now fs =
     (case notebook raises step w0 now (fresh fs) of
        (Some e, k) \<Rightarrow> Inl e
      | (None, k) \<Rightarrow> Inr (listing k))"

text \<open>
  The kernel in which cell \<open>c\<close> starts, in a run that reaches it: the cells above \<open>c\<close> have
  been run from top to bottom, and none of them has raised.
\<close>

definition at_start ::
  "(cell \<Rightarrow> ('e \<times> nat) option) \<Rightarrow> (keras_model \<Rightarrow> ndarray \<Rightarrow> ndarray \<Rightarrow> nat \<Rightarrow> nat \<Rightarrow> 'w \<Rightarrow> 'w)
     \<Rightarrow> 'w \<Rightarrow> datetime \<Rightarrow> 'w world \<Rightarrow> cell \<Rightarrow> 'w kernel option" where
  "at_start raises step w0 now fs c =
     (case run_cells raises (source step w0 now) (takeWhile (\<lambda>c'. c' \<noteq> c) cells) (fresh fs) of
        (Some e, k) \<Rightarrow> None
      | (None, k) \<Rightarrow> Some k)"

text \<open>The time to the second, which is all that \<open>stamp\<close> shows of it.\<close>

definition to_second :: "datetime \<Rightarrow> nat \<times> nat \<times> nat \<times> nat \<times> nat \<times> nat" where
  "to_second t = (year t, month t, day t, hour t, minute t, second t)"

subsection \<open>The outputs recorded in the notebook\<close>

text \<open>The table printed by \<^verbatim>\<open>model.summary()\<close> in \<^verbatim>\<open>Out [9]\<close>.\<close>

definition recorded_summary :: model_summary where
  "recorded_summary =
     \<lparr>rows = [(''Dense'', 10, 50), (''Dense'', 10, 110), (''Dense'', 3, 33)],
      total_params = 193, trainable_params = 193, non_trainable_params = 0\<rparr>"

text \<open>
  The listing printed by \<^verbatim>\<open>ls logs checkpoints\<close> in \<^verbatim>\<open>Out [12]\<close>; \<^verbatim>\<open>ls\<close> fills its
  columns downwards, and the names are given here in that order.
\<close>

definition recorded_listing :: "(string \<times> string list) list" where
  "recorded_listing =
     [(''checkpoints'',
       [''model01.h5'', ''model02.h5'', ''model03.h5'', ''model04.h5'', ''model05.h5'',
        ''model06.h5'', ''model07.h5'', ''model08.h5'', ''model09.h5'', ''model10.h5'',
        ''model11.h5'', ''model12.h5'', ''model13.h5'', ''model14.h5'', ''model15.h5'',
        ''model16.h5'', ''model17.h5'', ''model18.h5'', ''model19.h5'', ''model20.h5'',
        ''model21.h5'', ''model22.h5'', ''model23.h5'', ''model24.h5'', ''model25.h5'',
        ''model26.h5'', ''model27.h5'', ''model28.h5'', ''model29.h5'', ''model30.h5'',
        ''model31.h5'', ''model32.h5'', ''model33.h5'', ''model34.h5'', ''model35.h5'',
        ''model36.h5'', ''model37.h5'', ''model38.h5'', ''model39.h5'', ''model40.h5'',
        ''model41.h5'', ''model42.h5'', ''model43.h5'', ''model44.h5'', ''model45.h5'',
        ''model46.h5'', ''model47.h5'', ''model48.h5'', ''model49.h5'', ''model50.h5'']),
      (''logs'',
       [''2020-05-06-08-06-36'', ''2020-05-06-08-15-49'', ''2020-05-06-12-39-28'',
        ''2020-05-06-12-50-02'', ''2020-05-06-12-51-23''])]"

text \<open>
  The recorded run: the latest log directory gives its time to the second, the four others
  were there before it, left by earlier runs.
\<close>

definition recorded_time :: datetime where
  "recorded_time =
     \<lparr>year = 2020, month = 5, day = 6, hour = 12, minute = 51, second = 23, microsecond = 0\<rparr>"

definition recorded_earlier :: "datetime list" where
  "recorded_earlier =
     [\<lparr>year = 2020, month = 5, day = 6, hour = 8, minute = 6, second = 36, microsecond = 0\<rparr>,
      \<lparr>year = 2020, month = 5, day = 6, hour = 8, minute = 15, second = 49, microsecond = 0\<rparr>,
      \<lparr>year = 2020, month = 5, day = 6, hour = 12, minute = 39, second = 28, microsecond = 0\<rparr>,
      \<lparr>year = 2020, month = 5, day = 6, hour = 12, minute = 50, second = 2, microsecond = 0\<rparr>]"

definition recorded_disk :: "'w world" where
  "recorded_disk =
     \<lparr>files = [],
      dirs = [''./logs/2020-05-06-08-06-36'', ''./logs/2020-05-06-08-15-49'',
              ''./logs/2020-05-06-12-39-28'', ''./logs/2020-05-06-12-50-02'']\<rparr>"

section \<open>Properties\<close>

subsection \<open>Decimal digits\<close>

lemma digit_inj: "a < 10 \<Longrightarrow> b < 10 \<Longrightarrow> digit a = digit b \<Longrightarrow> a = b"
proof -
  assume a: "a < 10" and b: "b < 10" and e: "digit a = digit b"
  have d: "distinct ''0123456789''" by simp
  have "a < length ''0123456789''" "b < length ''0123456789''" using a b by simp_all
  with d e show "a = b" unfolding digit_def by (simp only: nth_eq_iff_index_eq)
qed

lemma dec_not_Nil: "dec n \<noteq> []"
  by (subst dec.simps) simp

lemma dec_small: "n < 10 \<Longrightarrow> dec n = [digit n]"
  by (subst dec.simps) simp

lemma dec_large: "10 \<le> n \<Longrightarrow> dec n = dec (n div 10) @ [digit (n mod 10)]"
  by (subst dec.simps) simp

lemma dec_inj: "dec a = dec b \<Longrightarrow> a = b"
proof (induction a arbitrary: b rule: dec.induct)
  case (1 n)
  show ?case
  proof (cases "n < 10")
    case True
    then have "length (dec b) = 1" using 1(2) [symmetric] by (simp add: dec_small)
    then have "b < 10"
      using dec_not_Nil [of "b div 10"] dec_large [of b] by (cases "b < 10") auto
    then show ?thesis using True 1(2) by (simp add: dec_small digit_inj)
  next
    case False
    then have n: "dec n = dec (n div 10) @ [digit (n mod 10)]" using dec_large [of n] by simp
    have "\<not> b < 10"
    proof
      assume "b < 10"
      then have "length (dec n) = 1" using 1(2) by (simp add: dec_small)
      then show False using n dec_not_Nil [of "n div 10"] by simp
    qed
    then have b: "dec b = dec (b div 10) @ [digit (b mod 10)]" using dec_large [of b] by simp
    from 1(2) n b have "dec (n div 10) = dec (b div 10)" and "digit (n mod 10) = digit (b mod 10)"
      by simp_all
    then have "n div 10 = b div 10" and "n mod 10 = b mod 10"
      using 1(1) [OF False] by (auto intro: digit_inj)
    then show ?thesis by (metis div_mult_mod_eq)
  qed
qed

lemma hd_dec: "0 < n \<Longrightarrow> hd (dec n) \<noteq> CHR ''0''"
proof (induction n rule: dec.induct)
  case (1 n)
  show ?case
  proof (cases "n < 10")
    case True
    have "digit n = CHR ''0'' \<Longrightarrow> n = 0"
      using digit_inj [of n 0] True by (simp add: digit_def)
    then show ?thesis using True 1(2) by (auto simp: dec_small)
  next
    case False
    then have "0 < n div 10" by simp
    then show ?thesis using 1(1) [OF False] False dec_not_Nil [of "n div 10"] dec_large [of n]
      by (simp add: hd_append)
  qed
qed

lemma length_dec_two: "10 \<le> n \<Longrightarrow> n < 100 \<Longrightarrow> length (dec n) = 2"
proof -
  assume a: "10 \<le> n" "n < 100"
  then have "n div 10 < 10" by simp
  then have "dec (n div 10) = [digit (n div 10)]" by (rule dec_small)
  then show ?thesis using dec_large [OF a(1)] by simp
qed

lemma length_dec_ge2: "10 \<le> n \<Longrightarrow> 2 \<le> length (dec n)"
  using dec_not_Nil [of "n div 10"] dec_large [of n] by (cases "dec (n div 10)") auto

lemma digit_is_digit: "n < 10 \<Longrightarrow> digit n \<in> set ''0123456789''"
  unfolding digit_def using nth_mem [of n "''0123456789''"] by simp

lemma set_dec: "set (dec n) \<subseteq> set ''0123456789''"
proof (induction n rule: dec.induct)
  case (1 n)
  show ?case
  proof (cases "n < 10")
    case True
    then show ?thesis using digit_is_digit [of n] by (simp add: dec_small)
  next
    case False
    then have "dec n = dec (n div 10) @ [digit (n mod 10)]" using dec_large [of n] by simp
    moreover have "digit (n mod 10) \<in> set ''0123456789''" by (rule digit_is_digit) simp
    ultimately show ?thesis using 1 [OF False] by simp
  qed
qed

lemma rjust2_small: "n < 10 \<Longrightarrow> rjust 2 CHR ''0'' (dec n) = [CHR ''0'', digit n]"
  by (simp add: rjust_def dec_small numeral_2_eq_2)

lemma rjust2_large: "10 \<le> n \<Longrightarrow> rjust 2 CHR ''0'' (dec n) = dec n"
  using length_dec_ge2 [of n] by (simp add: rjust_def)

lemma rjust2_two_digits:
  "n < 100 \<Longrightarrow> rjust 2 CHR ''0'' (dec n) = [digit (n div 10), digit (n mod 10)]"
proof (cases "n < 10")
  case True
  then show ?thesis by (simp add: rjust2_small digit_def)
next
  case False
  assume "n < 100"
  then have "n div 10 < 10" by simp
  then have "dec (n div 10) = [digit (n div 10)]" by (rule dec_small)
  then show ?thesis using False dec_large [of n] by (simp add: rjust_def)
qed

lemma rjust2_inj: "rjust 2 CHR ''0'' (dec a) = rjust 2 CHR ''0'' (dec b) \<Longrightarrow> a = b"
proof -
  assume e: "rjust 2 CHR ''0'' (dec a) = rjust 2 CHR ''0'' (dec b)"
  have mixed: False if s: "x < 10" and l: "10 \<le> y"
    and eq: "rjust 2 CHR ''0'' (dec x) = rjust 2 CHR ''0'' (dec y)" for x y
  proof -
    from eq s l have "dec y = [CHR ''0'', digit x]" by (simp add: rjust2_small rjust2_large)
    then have "hd (dec y) = CHR ''0''" by simp
    then show False using hd_dec [of y] l by simp
  qed
  show "a = b"
  proof (cases "a < 10")
    case True
    show ?thesis
    proof (cases "b < 10")
      case True
      with \<open>a < 10\<close> e show ?thesis by (simp add: rjust2_small digit_inj)
    next
      case False
      then show ?thesis using mixed [of a b] True e by simp
    qed
  next
    case False
    show ?thesis
    proof (cases "b < 10")
      case True
      then show ?thesis using mixed [of b a] False e by simp
    next
      case b: False
      with False e show ?thesis by (simp add: rjust2_large dec_inj)
    qed
  qed
qed

lemma length_rjust2: "n < 100 \<Longrightarrow> length (rjust 2 CHR ''0'' (dec n)) = 2"
  by (simp add: rjust2_two_digits)

lemma set_rjust2: "set (rjust 2 CHR ''0'' (dec n)) \<subseteq> set ''0123456789''"
  using set_dec [of n] by (auto simp: rjust_def)

lemma epoch_file_inj: "epoch_file a = epoch_file b \<Longrightarrow> a = b"
  by (simp add: epoch_file_def rjust2_inj)

lemma slash_epoch_file: "CHR ''/'' \<notin> set (epoch_file k)"
  using set_rjust2 [of k] by (auto simp: epoch_file_def)

lemma basename_join: "CHR ''/'' \<notin> set n \<Longrightarrow> basename (d @ CHR ''/'' # n) = n"
proof -
  assume "CHR ''/'' \<notin> set n"
  then have "takeWhile (\<lambda>c. c \<noteq> CHR ''/'') (rev n @ CHR ''/'' # rev d) =
      rev n @ takeWhile (\<lambda>c. c \<noteq> CHR ''/'') (CHR ''/'' # rev d)"
    by (intro takeWhile_append2) auto
  then show ?thesis by (simp add: basename_def)
qed

lemma dirname_join: "CHR ''/'' \<notin> set n \<Longrightarrow> dirname (d @ CHR ''/'' # n) = d"
proof -
  assume "CHR ''/'' \<notin> set n"
  then have "dropWhile (\<lambda>c. c \<noteq> CHR ''/'') (rev n @ CHR ''/'' # rev d) =
      dropWhile (\<lambda>c. c \<noteq> CHR ''/'') (CHR ''/'' # rev d)"
    by (intro dropWhile_append2) auto
  then show ?thesis by (simp add: dirname_def)
qed

subsection \<open>The expressions of the notebook\<close>

lemma format_checkpoint:
  "format_str ''./checkpoints/model{epoch:02d}.h5'' [] [(''epoch'', PyInt (int k + 1))]
     = Inr (checkpoint_path (Suc k))"
  by (simp add: format_value_def format_int_def Let_def is_digit_def number_def digit_value_def
      nat_add_distrib numeral_2_eq_2 epoch_file_def checkpoint_path_def)

lemma strftime_stamp: "strftime t ''%Y-%m-%d-%H-%M-%S'' = stamp t"
  by (simp add: directive_def stamp_def)

lemma format_logs: "format_str ''./logs/{}'' [PyStr s] [] = Inr (''./logs/'' @ s)"
  by (simp add: format_value_def)

lemma callbacks_eq:
  "callbacks now =
     Inr [TensorBoard (log_path now),
          ModelCheckpoint ''./checkpoints/model{epoch:02d}.h5'' ''epoch'']"
  unfolding callbacks_def strftime_stamp format_logs log_path_def by simp

subsection \<open>Files written one after another\<close>

lemma map_of_fold_update_other:
  "p \<notin> f ` set ks \<Longrightarrow>
     map_of (fold (\<lambda>k. AList.update (f k) (g k)) ks al) p = map_of al p"
  by (induction ks arbitrary: al) (auto simp: update_conv')

lemma map_of_fold_update:
  "inj_on f (set ks) \<Longrightarrow> distinct ks \<Longrightarrow> k \<in> set ks \<Longrightarrow>
     map_of (fold (\<lambda>k. AList.update (f k) (g k)) ks al) (f k) = Some (g k)"
proof (induction ks arbitrary: al)
  case Nil
  then show ?case by simp
next
  case (Cons x xs)
  show ?case
  proof (cases "k = x")
    case True
    have "f x \<notin> f ` set xs" using Cons.prems(1,2) by (auto simp: inj_on_def)
    then show ?thesis using True by (simp add: map_of_fold_update_other update_conv')
  next
    case False
    then show ?thesis using Cons by simp
  qed
qed

lemma keys_update: "fst ` set (AList.update k v al) = insert k (fst ` set al)"
  using dom_update [of k v al] by (simp add: dom_map_of_conv_image_fst)

lemma keys_fold_update:
  "fst ` set (fold (\<lambda>k. AList.update (f k) (g k)) ks al) = fst ` set al \<union> f ` set ks"
  by (induction ks arbitrary: al) (simp_all add: keys_update)

subsection \<open>The training loop with the notebook's callbacks\<close>

lemma training_loop_append:
  "training_loop step cbs (es @ es') h fs =
     (case training_loop step cbs es h fs of
        (Inl err, fs') \<Rightarrow> (Inl err, fs')
      | (Inr h', fs') \<Rightarrow> training_loop step cbs es' h' fs')"
  by (induction es arbitrary: h fs) (auto simp: Let_def split: prod.splits option.splits)

lemma epoch_end_hooks_notebook:
  "epoch_end_hooks [TensorBoard d, ModelCheckpoint ''./checkpoints/model{epoch:02d}.h5'' ''epoch'']
       e w fs
     = (None, fs\<lparr>files := AList.update (checkpoint_path (Suc e)) w (files fs)\<rparr>)"
  by (simp add: on_epoch_end_def format_checkpoint del: format_str.simps)

lemma training_loop_notebook:
  "training_loop step
       [TensorBoard d, ModelCheckpoint ''./checkpoints/model{epoch:02d}.h5'' ''epoch'']
       [0..<n] \<lparr>epoch = [], weights = w0\<rparr> fs
     = (Inr \<lparr>epoch = [0..<n], weights = fold step [0..<n] w0\<rparr>,
        fs\<lparr>files := fold (\<lambda>k. AList.update (checkpoint_path k) (fold step [0..<k] w0))
                          [1..<Suc n] (files fs)\<rparr>)"
proof (induction n)
  case 0
  then show ?case by simp
next
  case (Suc n)
  show ?case
    by (simp add: training_loop_append Suc epoch_end_hooks_notebook Let_def
        del: epoch_end_hooks.simps)
qed

lemma fit_notebook:
  "fit step w0 m x y batch_size n verbose
       [TensorBoard (log_path now),
        ModelCheckpoint ''./checkpoints/model{epoch:02d}.h5'' ''epoch''] fs =
     (Inr \<lparr>epoch = [0..<n], weights = fold (step m x y batch_size) [0..<n] w0\<rparr>,
      \<lparr>files = fold (\<lambda>k. AList.update (checkpoint_path k)
                          (fold (step m x y batch_size) [0..<k] w0)) [1..<Suc n] (files fs),
       dirs = List.insert (log_path now) (dirs fs)\<rparr>)"
  by (simp add: fit_def on_train_begin_def training_loop_notebook del: upt_Suc)

lemma fit_model_fit:
  "fit_model step w0 now iris m fs =
     fit step w0 m (data iris) (target iris) 32 50 1
       [TensorBoard (log_path now),
        ModelCheckpoint ''./checkpoints/model{epoch:02d}.h5'' ''epoch''] fs"
  by (simp add: fit_model_def callbacks_eq)

subsection \<open>Directory listings\<close>

lemma set_ls: "set (ls d fs) = entries d (fst ` set (files fs) \<union> set (dirs fs))"
  by (auto simp: ls_def entries_def)

lemma entries_empty: "entries d {} = {}"
  by (simp add: entries_def)

lemma entries_Un: "entries d (P \<union> Q) = entries d P \<union> entries d Q"
  by (auto simp: entries_def)

lemma entries_insert:
  "entries d (insert p P) = (if dirname p = ''./'' @ d then insert (basename p) (entries d P) else entries d P)"
  by (auto simp: entries_def)

lemma distinct_ls: "distinct (ls d fs)"
  by (simp add: ls_def)

lemma sorted_ls: "sorted (ls d fs)"
  by (simp add: ls_def)

lemma ls_sorted_list: "ls d fs = sorted_list_of_set (set (ls d fs))"
proof -
  have "sorted_list_of_set (set (sort (remdups xs))) = sort (remdups xs)" for xs :: "string list"
    using sorted_list_of_set_sort_remdups [of xs] by simp
  then show ?thesis by (simp only: ls_def)
qed

lemma slash_dec: "CHR ''/'' \<notin> set (dec n)"
  using set_dec [of n] by auto

lemma slash_rjust2: "CHR ''/'' \<notin> set (rjust 2 CHR ''0'' (dec n))"
  using slash_dec [of n] by (simp add: rjust_def)

lemma slash_stamp: "CHR ''/'' \<notin> set (stamp t)"
  by (simp add: stamp_def slash_dec slash_rjust2)

lemma checkpoint_path_parts:
  "dirname (checkpoint_path k) = ''./checkpoints''"
  "basename (checkpoint_path k) = epoch_file k"
  using dirname_join [OF slash_epoch_file, of "''./checkpoints''" k]
    basename_join [OF slash_epoch_file, of "''./checkpoints''" k]
  by (simp_all add: checkpoint_path_def)

lemma log_path_parts:
  "dirname (log_path t) = ''./logs''"
  "basename (log_path t) = stamp t"
  using dirname_join [OF slash_stamp, of "''./logs''" t]
    basename_join [OF slash_stamp, of "''./logs''" t]
  by (simp_all add: log_path_def)

lemma entries_checkpoints: "entries ''checkpoints'' (checkpoint_path ` S) = epoch_file ` S"
proof -
  have "{p \<in> checkpoint_path ` S. dirname p = ''./'' @ ''checkpoints''} = checkpoint_path ` S"
    by (auto simp: checkpoint_path_parts)
  then show ?thesis
    unfolding entries_def by (simp add: image_image checkpoint_path_parts)
qed

lemma entries_logs_checkpoints: "entries ''logs'' (checkpoint_path ` S) = {}"
  by (auto simp: entries_def checkpoint_path_parts)

text \<open>The two directories after training, whatever was on the disk before.\<close>

lemma paths_after_fit:
  "fit step w0 m x y batch_size n verbose
       [TensorBoard (log_path now),
        ModelCheckpoint ''./checkpoints/model{epoch:02d}.h5'' ''epoch''] fs = (r, fs') \<Longrightarrow>
     fst ` set (files fs') \<union> set (dirs fs') =
       (fst ` set (files fs) \<union> set (dirs fs)) \<union> checkpoint_path ` {1..n}
         \<union> {log_path now}"
proof -
  have s: "set [1..<Suc n] = {1..n}" by auto
  assume "fit step w0 m x y batch_size n verbose
       [TensorBoard (log_path now),
        ModelCheckpoint ''./checkpoints/model{epoch:02d}.h5'' ''epoch''] fs = (r, fs')"
  then have "files fs' = fold (\<lambda>k. AList.update (checkpoint_path k)
        (fold (step m x y batch_size) [0..<k] w0)) [1..<Suc n] (files fs)"
    and "dirs fs' = List.insert (log_path now) (dirs fs)"
    unfolding fit_notebook by auto
  then show ?thesis
    by (simp only: keys_fold_update s set_insert) auto
qed

lemma ls_checkpoints_fit:
  assumes "fit step w0 m x y batch_size n verbose
       [TensorBoard (log_path now),
        ModelCheckpoint ''./checkpoints/model{epoch:02d}.h5'' ''epoch''] fs = (r, fs')"
  shows "set (ls ''checkpoints'' fs') = set (ls ''checkpoints'' fs) \<union> epoch_file ` {1..n}"
proof -
  have "entries ''checkpoints'' {log_path now} = {}"
    by (simp add: entries_insert log_path_parts entries_empty)
  then show ?thesis
    unfolding set_ls paths_after_fit [OF assms] entries_Un entries_checkpoints by simp
qed

lemma ls_logs_fit:
  assumes "fit step w0 m x y batch_size n verbose
       [TensorBoard (log_path now),
        ModelCheckpoint ''./checkpoints/model{epoch:02d}.h5'' ''epoch''] fs = (r, fs')"
  shows "set (ls ''logs'' fs') = insert (stamp now) (set (ls ''logs'' fs))"
proof -
  have "entries ''logs'' {log_path now} = {stamp now}"
    by (simp add: entries_insert log_path_parts entries_empty)
  then show ?thesis
    unfolding set_ls paths_after_fit [OF assms] entries_Un entries_logs_checkpoints by simp
qed

subsection \<open>The network\<close>

lemma layers_model:
  "layers model = [Dense 10 (Some relu) (Some [4]), Dense 10 (Some relu) None, Dense 3 None None]"
  by (simp add: model_def add_def Sequential_def n_input_def n_output_def)

lemma layers_add: "layers (add m l) = layers m @ [l]"
  by (simp add: add_def)

lemma call_add: "call f (add m l) x = f l (call f m x)"
  by (simp add: call_def add_def)

lemma summary_model: "summary model = Inr recorded_summary"
  by (simp add: summary_def input_dim_def layers_model class_name_def count_params_def
      recorded_summary_def)

subsection \<open>A run of the notebook\<close>

lemma fit_model_Inr:
  "fit_model step w0 now iris m fs =
     (Inr \<lparr>epoch = [0..<50], weights = fold (step m (data iris) (target iris) 32) [0..<50] w0\<rparr>,
      snd (fit_model step w0 now iris m fs))"
  unfolding fit_model_fit fit_notebook by simp

lemma model_built: "model = built"
  by (simp add: model_def built_def add_def Sequential_def n_input_def n_output_def)

lemma compile_model_built: "compile_model built = compiled"
  by (simp add: compile_model_def compile_def built_def compiled_def)

lemma summary_built: "summary built = Inr recorded_summary"
  using summary_model by (simp add: model_built)

lemma imports_whole:
  "steps imports_cell None \<lparr>executed = ex, globals = [], listing = l, disk = fs\<rparr> =
     (None, \<lparr>executed = ex, globals = modules, listing = l, disk = fs\<rparr>)"
  by (simp add: steps_def imports_cell_def import_as_def skip_def assign_def reading_def
      variable_def modules_def)

lemma imports_part:
  "steps imports_cell (Some n)
       \<lparr>executed = ex, globals = [], listing = l, disk = fs\<rparr> =
     (None, \<lparr>executed = ex, globals = take n modules, listing = l, disk = (fs :: 'w world)\<rparr>)"
  by (simp add: steps_def imports_cell_def import_as_def skip_def assign_def reading_def
      variable_def modules_def take_Cons split: nat.splits)

lemma load_whole:
  "steps load_cell None \<lparr>executed = ex, globals = modules, listing = l, disk = fs\<rparr> =
     (None, \<lparr>executed = ex, globals = modules @ [(''iris'', Bunch load_iris)], listing = l,
             disk = fs\<rparr>)"
  by (simp add: steps_def load_cell_def assign_def reading_def variable_def modules_def)

lemma load_part:
  "steps load_cell (Some n) k = (None, k)"
  by (simp add: steps_def load_cell_def)

lemma build_whole:
  "steps build_cell None
       \<lparr>executed = ex, globals = modules @ [(''iris'', Bunch load_iris)], listing = l, disk = fs\<rparr> =
     (None, \<lparr>executed = ex,
             globals = modules @ [(''iris'', Bunch load_iris), (''n_input'', Number 4),
                                  (''n_output'', Number 3), (''model'', Model built)],
             listing = l, disk = fs\<rparr>)"
  using summary_built
  by (simp add: steps_def build_cell_def assign_def reading_def variable_def modules_def as_model_def
      as_number_def n_input_def n_output_def add_def Sequential_def)
    (simp add: built_def)

lemma build_part:
  "steps build_cell (Some n)
       \<lparr>executed = ex, globals = modules @ [(''iris'', Bunch load_iris)], listing = l, disk = fs\<rparr> =
     (None, \<lparr>executed = ex,
             globals = modules @ [(''iris'', Bunch load_iris)] @
               take n [(''n_input'', Number 4), (''n_output'', Number 3)] @
               (if n < 3 then []
                else [(''model'', Model \<lparr>layers = take (n - 3) (layers built), optimizer = None,
                                         loss = None, metrics = []\<rparr>)]),
             listing = l, disk = (fs :: 'w world)\<rparr>)"
proof -
  consider "n = 0" | "n = 1" | "n = 2" | "n = 3" | "n = 4" | "n = 5" | "6 \<le> n"
    by linarith
  then show ?thesis
  proof cases
    case 7
    then have "min n 6 = 6" "\<not> n < 3" "take n [(''n_input'', Number 4 :: 'w object), (''n_output'', Number 3)] =
      [(''n_input'', Number 4), (''n_output'', Number 3)]"
      "take (n - 3) (layers built) = layers built"
      by (simp_all add: built_def)
    then show ?thesis
      by (simp add: steps_def build_cell_def assign_def reading_def variable_def modules_def as_model_def
          as_number_def n_input_def n_output_def add_def Sequential_def built_def)
  qed (simp_all add: steps_def build_cell_def assign_def reading_def variable_def modules_def as_model_def
      as_number_def n_input_def n_output_def add_def Sequential_def built_def)
qed

lemma compile_whole:
  "steps compile_cell None
       \<lparr>executed = ex,
        globals = modules @ [(''iris'', Bunch load_iris), (''n_input'', Number 4),
                             (''n_output'', Number 3), (''model'', Model built)],
        listing = l, disk = fs\<rparr> =
     (None, \<lparr>executed = ex,
             globals = modules @ [(''iris'', Bunch load_iris), (''n_input'', Number 4),
                                  (''n_output'', Number 3), (''model'', Model compiled)],
             listing = l, disk = fs\<rparr>)"
  by (simp add: steps_def compile_cell_def assign_def reading_def variable_def modules_def as_model_def
      compile_model_built)

lemma compile_part:
  "steps compile_cell (Some n) k =
     (None, k)"
  by (simp add: steps_def compile_cell_def)

lemma callbacks_statement_eq:
  "callbacks_statement now
       \<lparr>executed = ex,
        globals = modules @ [(''iris'', Bunch load_iris), (''n_input'', Number 4),
                             (''n_output'', Number 3), (''model'', Model compiled)],
        listing = l, disk = fs\<rparr> =
     (None, \<lparr>executed = ex,
             globals = modules @ [(''iris'', Bunch load_iris), (''n_input'', Number 4),
                                  (''n_output'', Number 3), (''model'', Model compiled),
                                  (''callbacks'', Callbacks
                                     [TensorBoard (log_path now),
                                      ModelCheckpoint ''./checkpoints/model{epoch:02d}.h5''
                                        ''epoch''])],
             listing = l, disk = fs\<rparr>)"
  by (simp add: callbacks_statement_def callbacks_eq assign_def reading_def variable_def
      modules_def)

lemma fit_statement_eq:
  "fit_statement step w0 stop
       \<lparr>executed = ex,
        globals = modules @ [(''iris'', Bunch load_iris), (''n_input'', Number 4),
                             (''n_output'', Number 3), (''model'', Model compiled),
                             (''callbacks'', Callbacks
                                [TensorBoard (log_path now),
                                 ModelCheckpoint ''./checkpoints/model{epoch:02d}.h5''
                                   ''epoch''])],
        listing = l, disk = fs\<rparr> =
     (None, \<lparr>executed = ex,
             globals = modules @ [(''iris'', Bunch load_iris), (''n_input'', Number 4),
                                  (''n_output'', Number 3), (''model'', Model compiled),
                                  (''callbacks'', Callbacks
                                     [TensorBoard (log_path now),
                                      ModelCheckpoint ''./checkpoints/model{epoch:02d}.h5''
                                        ''epoch''])] @
                (case stop of
                   None \<Rightarrow>
                     [(''history'', Hist \<lparr>epoch = [0..<50],
                         weights = fold (step compiled [150, 4] [150] 32) [0..<50] w0\<rparr>)]
                 | Some j \<Rightarrow> []),
             listing = l,
             disk = \<lparr>files = fold (\<lambda>k. AList.update (checkpoint_path k)
                                 (fold (step compiled [150, 4] [150] 32) [0..<k] w0))
                              [1..<Suc (case stop of None \<Rightarrow> 50 | Some j \<Rightarrow> min j 50)] (files fs),
                     dirs = List.insert (log_path now) (dirs fs)\<rparr>\<rparr>)"
  by (cases stop)
    (simp_all add: fit_statement_def fit_notebook assign_def reading_def variable_def modules_def
      as_model_def as_bunch_def as_callbacks_def load_iris_def del: upt_Suc)


lemma fit_whole:
  "fit_cell step w0 now None
       \<lparr>executed = ex, globals = modules @ [(''iris'', Bunch load_iris), (''n_input'', Number 4),
                             (''n_output'', Number 3), (''model'', Model compiled)], listing = l, disk = fs\<rparr> =
     (None, \<lparr>executed = ex, globals = modules @ [(''iris'', Bunch load_iris), (''n_input'', Number 4),
                             (''n_output'', Number 3), (''model'', Model compiled),
                             (''callbacks'', Callbacks
                                [TensorBoard (log_path now),
                                 ModelCheckpoint ''./checkpoints/model{epoch:02d}.h5''
                                   ''epoch'']),
                             (''history'', Hist \<lparr>epoch = [0..<50],
                                weights = fold (step compiled [150, 4] [150] 32) [0..<50] w0\<rparr>)], listing = l,
             disk = \<lparr>files = fold (\<lambda>k. AList.update (checkpoint_path k)
                              (fold (step compiled [150, 4] [150] 32) [0..<k] w0))
                           [1..<Suc (50)] (files fs),
                  dirs = List.insert (log_path now) (dirs fs)\<rparr>\<rparr>)"
  by (simp add: fit_cell_def callbacks_statement_eq fit_statement_eq del: upt_Suc)

lemma fit_part:
  "fit_cell step w0 now (Some n)
       \<lparr>executed = ex, globals = modules @ [(''iris'', Bunch load_iris), (''n_input'', Number 4),
                             (''n_output'', Number 3), (''model'', Model compiled)], listing = l, disk = fs\<rparr> =
     (None, \<lparr>executed = ex,
             globals = modules @ [(''iris'', Bunch load_iris), (''n_input'', Number 4),
                             (''n_output'', Number 3), (''model'', Model compiled)] @
               (if n = 0 then [] else [(''callbacks'', Callbacks
                                [TensorBoard (log_path now),
                                 ModelCheckpoint ''./checkpoints/model{epoch:02d}.h5''
                                   ''epoch''])]),
             listing = l,
             disk = (if n < 2 then fs else \<lparr>files = fold (\<lambda>k. AList.update (checkpoint_path k)
                              (fold (step compiled [150, 4] [150] 32) [0..<k] w0))
                           [1..<Suc (min (n - 2) 50)] (files fs),
                  dirs = List.insert (log_path now) (dirs fs)\<rparr>)\<rparr>)"
proof -
  consider "n = 0" | "n = Suc 0" | j where "n = Suc (Suc j)"
    by (cases n rule: nat.exhaust [case_product nat.exhaust]) (auto, metis not0_implies_Suc)
  then show ?thesis
    by cases
      (simp_all add: fit_cell_def callbacks_statement_eq fit_statement_eq
        del: upt_Suc)
qed

text \<open>The training cell in the kernel does to the disk what \<open>fit_model\<close> does.\<close>

lemma fit_cell_fit_model:
  assumes "map_of (globals k) ''tf'' = Some t" "map_of (globals k) ''dt'' = Some d"
    and "map_of (globals k) ''model'' = Some (Model m)"
    and "map_of (globals k) ''iris'' = Some (Bunch b)"
  shows "disk (snd (fit_cell step w0 now None k)) = snd (fit_model step w0 now b m (disk k))"
  using assms
  by (simp add: fit_cell_def callbacks_statement_def fit_statement_def reading_def variable_def
      assign_def as_model_def as_bunch_def as_callbacks_def callbacks_eq fit_model_fit
      fit_notebook update_conv' del: upt_Suc)

lemma inspect_whole:
  "steps inspect_cell None \<lparr>executed = ex, globals = g, listing = l, disk = fs\<rparr> =
     (None, \<lparr>executed = ex, globals = g,
             listing = [(''checkpoints'', ls ''checkpoints'' fs), (''logs'', ls ''logs'' fs)],
             disk = fs\<rparr>)"
  by (simp add: steps_def inspect_cell_def inspect_def)

lemma inspect_part:
  "steps inspect_cell (Some n) k =
     (None, k)"
  by (simp add: steps_def inspect_cell_def)


lemma notebook_eq:
  "notebook raises step w0 now (fresh fs) =
 (case raises Imports of
   Some (e, n) \<Rightarrow>
     (Some (FrameworkError e),
      \<lparr>executed = [Imports],
            globals = take n modules,
            listing = [],
            disk = fs\<rparr>)
 | None \<Rightarrow>
 (case raises LoadData of
   Some (e, n) \<Rightarrow>
     (Some (FrameworkError e),
      \<lparr>executed = [Imports, LoadData],
            globals = modules,
            listing = [],
            disk = fs\<rparr>)
 | None \<Rightarrow>
 (case raises BuildModel of
   Some (e, n) \<Rightarrow>
     (Some (FrameworkError e),
      \<lparr>executed = [Imports, LoadData, BuildModel],
            globals = modules @ [(''iris'', Bunch load_iris)] @ take n [(''n_input'', Number 4), (''n_output'', Number 3)] @
              (if n < 3 then []
               else [(''model'', Model \<lparr>layers = take (n - 3) (layers built), optimizer = None,
                                        loss = None, metrics = []\<rparr>)]),
            listing = [],
            disk = fs\<rparr>)
 | None \<Rightarrow>
 (case raises CompileModel of
   Some (e, n) \<Rightarrow>
     (Some (FrameworkError e),
      \<lparr>executed = [Imports, LoadData, BuildModel, CompileModel],
            globals = modules @ [(''iris'', Bunch load_iris), (''n_input'', Number 4), (''n_output'', Number 3), (''model'', Model built)],
            listing = [],
            disk = fs\<rparr>)
 | None \<Rightarrow>
 (case raises FitModel of
   Some (e, n) \<Rightarrow>
     (Some (FrameworkError e),
      \<lparr>executed = [Imports, LoadData, BuildModel, CompileModel, FitModel],
            globals = modules @ [(''iris'', Bunch load_iris), (''n_input'', Number 4), (''n_output'', Number 3), (''model'', Model compiled)] @
              (if n = 0 then [] else [(''callbacks'', Callbacks
               [TensorBoard (log_path now),
                ModelCheckpoint ''./checkpoints/model{epoch:02d}.h5'' ''epoch''])]),
            listing = [],
            disk = (if n < 2 then fs else \<lparr>files = fold (\<lambda>k. AList.update (checkpoint_path k)
                            (fold (step compiled [150, 4] [150] 32) [0..<k] w0))
                         [1..<Suc (min (n - 2) 50)] (files fs),
                dirs = List.insert (log_path now) (dirs fs)\<rparr>)\<rparr>)
 | None \<Rightarrow>
 (case raises Inspect of
   Some (e, n) \<Rightarrow>
     (Some (FrameworkError e),
      \<lparr>executed = [Imports, LoadData, BuildModel, CompileModel, FitModel, Inspect],
            globals = modules @ [(''iris'', Bunch load_iris), (''n_input'', Number 4), (''n_output'', Number 3), (''model'', Model compiled),
              (''callbacks'', Callbacks
               [TensorBoard (log_path now),
                ModelCheckpoint ''./checkpoints/model{epoch:02d}.h5'' ''epoch'']),
              (''history'', Hist \<lparr>epoch = [0..<50],
               weights = fold (step compiled [150, 4] [150] 32) [0..<50] w0\<rparr>)],
            listing = [],
            disk = \<lparr>files = fold (\<lambda>k. AList.update (checkpoint_path k)
                            (fold (step compiled [150, 4] [150] 32) [0..<k] w0))
                         [1..<Suc (50)] (files fs),
                dirs = List.insert (log_path now) (dirs fs)\<rparr>\<rparr>)
 | None \<Rightarrow>
 (None, \<lparr>executed = [Imports, LoadData, BuildModel, CompileModel, FitModel, Inspect],
            globals = modules @ [(''iris'', Bunch load_iris), (''n_input'', Number 4), (''n_output'', Number 3), (''model'', Model compiled),
              (''callbacks'', Callbacks
               [TensorBoard (log_path now),
                ModelCheckpoint ''./checkpoints/model{epoch:02d}.h5'' ''epoch'']),
              (''history'', Hist \<lparr>epoch = [0..<50],
               weights = fold (step compiled [150, 4] [150] 32) [0..<50] w0\<rparr>)],
            listing = [(''checkpoints'', ls ''checkpoints'' (\<lparr>files = fold (\<lambda>k. AList.update (checkpoint_path k)
                            (fold (step compiled [150, 4] [150] 32) [0..<k] w0))
                         [1..<Suc (50)] (files fs),
                dirs = List.insert (log_path now) (dirs fs)\<rparr>)),
             (''logs'', ls ''logs'' (\<lparr>files = fold (\<lambda>k. AList.update (checkpoint_path k)
                            (fold (step compiled [150, 4] [150] 32) [0..<k] w0))
                         [1..<Suc (50)] (files fs),
                dirs = List.insert (log_path now) (dirs fs)\<rparr>))],
            disk = \<lparr>files = fold (\<lambda>k. AList.update (checkpoint_path k)
                            (fold (step compiled [150, 4] [150] 32) [0..<k] w0))
                         [1..<Suc (50)] (files fs),
                dirs = List.insert (log_path now) (dirs fs)\<rparr>\<rparr>)))))))"
  by (simp add: notebook_def cells_def run_cell_def source_def fresh_def Let_def
      imports_whole imports_part load_whole load_part build_whole build_part compile_whole
      compile_part fit_whole fit_part inspect_whole inspect_part
      split: option.splits
      del: upt_Suc)



lemma trained_eq:
  "trained step w0 now fs =
     \<lparr>files = fold (\<lambda>k. AList.update (checkpoint_path k)
                       (fold (step compiled [150, 4] [150] 32) [0..<k] w0))
                    [1..<Suc 50] (files fs),
      dirs = List.insert (log_path now) (dirs fs)\<rparr>"
  by (simp add: trained_def fit_model_fit fit_notebook model_built compile_model_built
      load_iris_def del: upt_Suc)

lemma run_cells_append:
  "run_cells raises src (cs @ cs') k =
     (case run_cells raises src cs k of
        (Some e, k') \<Rightarrow> (Some e, k')
      | (None, k') \<Rightarrow> run_cells raises src cs' k')"
  by (induction cs arbitrary: k) (auto split: prod.splits option.splits)

lemma at_start_continues:
  "at_start raises step w0 now fs c = Some k \<Longrightarrow>
     notebook raises step w0 now (fresh fs) =
       run_cells raises (source step w0 now) (dropWhile (\<lambda>c'. c' \<noteq> c) cells) k"
  using run_cells_append [of raises "source step w0 now" "takeWhile (\<lambda>c'. c' \<noteq> c) cells"
      "dropWhile (\<lambda>c'. c' \<noteq> c) cells" "fresh fs"]
  by (simp add: at_start_def notebook_def split: prod.splits option.splits)

lemma disk_final:
  "disk (final (\<lambda>c. None) step w0 now fs) = trained step w0 now fs"
  by (simp add: final_def notebook_eq trained_eq del: upt_Suc)

lemma no_python_error:
  "outcome raises step w0 now fs \<noteq> Inl (PythonError err)"
  by (simp add: outcome_def notebook_eq split: option.splits del: upt_Suc)

lemma executed_final:
  "executed (final raises step w0 now fs) =
     (case raises Imports of Some x \<Rightarrow> take 1 cells | None \<Rightarrow>
      case raises LoadData of Some x \<Rightarrow> take 2 cells | None \<Rightarrow>
      case raises BuildModel of Some x \<Rightarrow> take 3 cells | None \<Rightarrow>
      case raises CompileModel of Some x \<Rightarrow> take 4 cells | None \<Rightarrow>
      case raises FitModel of Some x \<Rightarrow> take 5 cells | None \<Rightarrow> cells)"
  by (simp add: final_def notebook_eq cells_def split: option.splits del: upt_Suc)

lemma outcome_eq:
  "outcome raises step w0 now fs =
     (case raises Imports of Some (e, n) \<Rightarrow> Inl (FrameworkError e) | None \<Rightarrow>
      case raises LoadData of Some (e, n) \<Rightarrow> Inl (FrameworkError e) | None \<Rightarrow>
      case raises BuildModel of Some (e, n) \<Rightarrow> Inl (FrameworkError e) | None \<Rightarrow>
      case raises CompileModel of Some (e, n) \<Rightarrow> Inl (FrameworkError e) | None \<Rightarrow>
      case raises FitModel of Some (e, n) \<Rightarrow> Inl (FrameworkError e) | None \<Rightarrow>
      case raises Inspect of Some (e, n) \<Rightarrow> Inl (FrameworkError e) | None \<Rightarrow>
        Inr [(''checkpoints'', ls ''checkpoints'' (trained step w0 now fs)),
             (''logs'', ls ''logs'' (trained step w0 now fs))])"
  by (simp add: outcome_def notebook_eq trained_eq split: option.splits del: upt_Suc)



lemma at_start_LoadData:
  "at_start raises step w0 now fs LoadData =
     (case raises Imports of Some x \<Rightarrow> None | None \<Rightarrow>
      Some
            \<lparr>executed = [Imports],
             globals = modules,
             listing = [],
             disk = fs\<rparr>)"
  by (simp add: at_start_def cells_def run_cell_def source_def fresh_def Let_def
      imports_whole imports_part load_whole load_part build_whole build_part compile_whole
      compile_part fit_whole fit_part inspect_whole inspect_part
      split: option.splits
      del: upt_Suc)

lemma at_start_BuildModel:
  "at_start raises step w0 now fs BuildModel =
     (case raises Imports of Some x \<Rightarrow> None | None \<Rightarrow>
      (case raises LoadData of Some x \<Rightarrow> None | None \<Rightarrow>
      Some
            \<lparr>executed = [Imports, LoadData],
             globals = modules @ [(''iris'', Bunch load_iris)],
             listing = [],
             disk = fs\<rparr>))"
  by (simp add: at_start_def cells_def run_cell_def source_def fresh_def Let_def
      imports_whole imports_part load_whole load_part build_whole build_part compile_whole
      compile_part fit_whole fit_part inspect_whole inspect_part
      split: option.splits
      del: upt_Suc)

lemma at_start_CompileModel:
  "at_start raises step w0 now fs CompileModel =
     (case raises Imports of Some x \<Rightarrow> None | None \<Rightarrow>
      (case raises LoadData of Some x \<Rightarrow> None | None \<Rightarrow>
      (case raises BuildModel of Some x \<Rightarrow> None | None \<Rightarrow>
      Some
            \<lparr>executed = [Imports, LoadData, BuildModel],
             globals = modules @ [(''iris'', Bunch load_iris), (''n_input'', Number 4), (''n_output'', Number 3), (''model'', Model built)],
             listing = [],
             disk = fs\<rparr>)))"
  by (simp add: at_start_def cells_def run_cell_def source_def fresh_def Let_def
      imports_whole imports_part load_whole load_part build_whole build_part compile_whole
      compile_part fit_whole fit_part inspect_whole inspect_part
      split: option.splits
      del: upt_Suc)

lemma at_start_FitModel:
  "at_start raises step w0 now fs FitModel =
     (case raises Imports of Some x \<Rightarrow> None | None \<Rightarrow>
      (case raises LoadData of Some x \<Rightarrow> None | None \<Rightarrow>
      (case raises BuildModel of Some x \<Rightarrow> None | None \<Rightarrow>
      (case raises CompileModel of Some x \<Rightarrow> None | None \<Rightarrow>
      Some
            \<lparr>executed = [Imports, LoadData, BuildModel, CompileModel],
             globals = modules @ [(''iris'', Bunch load_iris), (''n_input'', Number 4), (''n_output'', Number 3), (''model'', Model compiled)],
             listing = [],
             disk = fs\<rparr>))))"
  by (simp add: at_start_def cells_def run_cell_def source_def fresh_def Let_def
      imports_whole imports_part load_whole load_part build_whole build_part compile_whole
      compile_part fit_whole fit_part inspect_whole inspect_part
      split: option.splits
      del: upt_Suc)

lemma at_start_Inspect:
  "at_start raises step w0 now fs Inspect =
     (case raises Imports of Some x \<Rightarrow> None | None \<Rightarrow>
      (case raises LoadData of Some x \<Rightarrow> None | None \<Rightarrow>
      (case raises BuildModel of Some x \<Rightarrow> None | None \<Rightarrow>
      (case raises CompileModel of Some x \<Rightarrow> None | None \<Rightarrow>
      (case raises FitModel of Some x \<Rightarrow> None | None \<Rightarrow>
      Some
            \<lparr>executed = [Imports, LoadData, BuildModel, CompileModel, FitModel],
             globals = modules @ [(''iris'', Bunch load_iris), (''n_input'', Number 4), (''n_output'', Number 3), (''model'', Model compiled),
                   (''callbacks'', Callbacks
                    [TensorBoard (log_path now),
                     ModelCheckpoint ''./checkpoints/model{epoch:02d}.h5'' ''epoch'']),
                   (''history'', Hist \<lparr>epoch = [0..<50],
                    weights = fold (step compiled [150, 4] [150] 32) [0..<50] w0\<rparr>)],
             listing = [],
             disk = \<lparr>files = fold (\<lambda>k. AList.update (checkpoint_path k)
                                 (fold (step compiled [150, 4] [150] 32) [0..<k] w0))
                              [1..<51] (files fs),
                     dirs = List.insert (log_path now) (dirs fs)\<rparr>\<rparr>)))))"
  by (simp add: at_start_def cells_def run_cell_def source_def fresh_def Let_def
      imports_whole imports_part load_whole load_part build_whole build_part compile_whole
      compile_part fit_whole fit_part inspect_whole inspect_part
      split: option.splits
      del: upt_Suc)

lemma at_start_Imports: "at_start raises step w0 now fs Imports = Some (fresh fs)"
  by (simp add: at_start_def cells_def)

lemma started_iff:
  "c \<in> set (executed (final raises step w0 now fs)) \<longleftrightarrow> at_start raises step w0 now fs c \<noteq> None"
  by (cases c)
    (simp_all add: executed_final cells_def at_start_Imports at_start_LoadData at_start_BuildModel
      at_start_CompileModel at_start_FitModel at_start_Inspect split: option.splits
      del: upt_Suc)

lemma disk_before_fit:
  "FitModel \<notin> set (executed (final raises step w0 now fs)) \<Longrightarrow>
     disk (final raises step w0 now fs) = fs"
  by (simp add: final_def notebook_eq split: option.splits prod.splits del: upt_Suc)

lemma listing_before_inspect:
  "Inspect \<notin> set (executed (final raises step w0 now fs)) \<Longrightarrow>
     listing (final raises step w0 now fs) = []"
  by (simp add: final_def notebook_eq split: option.splits prod.splits del: upt_Suc)

lemma prefix_executed: "prefix (executed (final raises step w0 now fs)) cells"
  by (simp add: executed_final cells_def split: option.splits)

lemma prefix_steps:
  "prefix (filter (\<lambda>c. c \<noteq> Imports) (executed (final raises step w0 now fs)))
     [LoadData, BuildModel, CompileModel, FitModel, Inspect]"
  by (simp add: executed_final cells_def split: option.splits)

lemma run_without_exception:
  "\<forall>c. raises c = None \<Longrightarrow>
     executed (final raises step w0 now fs) = cells \<and>
     disk (final raises step w0 now fs) = trained step w0 now fs \<and>
     outcome raises step w0 now fs =
       Inr [(''checkpoints'', ls ''checkpoints'' (trained step w0 now fs)),
            (''logs'', ls ''logs'' (trained step w0 now fs))]"
  by (simp add: executed_final outcome_eq final_def notebook_eq trained_eq cells_def
      del: upt_Suc)

subsection \<open>Checkpoint files\<close>

lemma inj_checkpoint_path: "inj_on checkpoint_path S"
  by (auto simp: inj_on_def checkpoint_path_def dest: epoch_file_inj)

lemma card_epoch_files: "card (epoch_file ` {1..n}) = n"
proof -
  have "inj_on epoch_file {1..n}" by (auto simp: inj_on_def dest: epoch_file_inj)
  then show ?thesis by (simp add: card_image)
qed

lemma epoch_file_two_digits:
  "k < 100 \<Longrightarrow> epoch_file k = ''model'' @ [digit (k div 10), digit (k mod 10)] @ ''.h5''"
  by (simp add: epoch_file_def rjust2_two_digits)

lemma epoch_files_50:
  "map epoch_file [1..<51] = snd (hd recorded_listing)"
  by code_simp

lemma sorted_epoch_files_50: "sorted (map epoch_file [1..<51])"
  unfolding epoch_files_50 by code_simp

lemma length_ls: "length (ls d fs) = card (set (ls d fs))"
  using distinct_ls [of d fs] by (simp add: distinct_card)

lemma ls_eqI: "sorted xs \<Longrightarrow> distinct xs \<Longrightarrow> set (ls d fs) = set xs \<Longrightarrow> ls d fs = xs"
  using sorted_distinct_set_unique [of "ls d fs" xs] by (simp add: sorted_ls distinct_ls)

lemma saved_after_fit:
  assumes "fit step w0 m x y batch_size n verbose
       [TensorBoard (log_path now),
        ModelCheckpoint ''./checkpoints/model{epoch:02d}.h5'' ''epoch''] fs = (r, fs')"
    and "k \<in> {1..n}"
  shows "map_of (files fs') (checkpoint_path k) = Some (fold (step m x y batch_size) [0..<k] w0)"
proof -
  have "files fs' = fold (\<lambda>k. AList.update (checkpoint_path k)
        (fold (step m x y batch_size) [0..<k] w0)) [1..<Suc n] (files fs)"
    using assms(1) unfolding fit_notebook by auto
  moreover have "k \<in> set [1..<Suc n]" using assms(2) by auto
  ultimately show ?thesis
    using map_of_fold_update [of checkpoint_path "[1..<Suc n]" k
        "\<lambda>k. fold (step m x y batch_size) [0..<k] w0" "files fs"]
    by (simp add: inj_checkpoint_path del: upt_Suc)
qed

lemma others_after_fit:
  assumes "fit step w0 m x y batch_size n verbose
       [TensorBoard (log_path now),
        ModelCheckpoint ''./checkpoints/model{epoch:02d}.h5'' ''epoch''] fs = (r, fs')"
    and "p \<notin> checkpoint_path ` {1..n}"
  shows "map_of (files fs') p = map_of (files fs) p"
proof -
  have "files fs' = fold (\<lambda>k. AList.update (checkpoint_path k)
        (fold (step m x y batch_size) [0..<k] w0)) [1..<Suc n] (files fs)"
    using assms(1) unfolding fit_notebook by auto
  moreover have "set [1..<Suc n] = {1..n}" by auto
  ultimately show ?thesis
    using map_of_fold_update_other [of p checkpoint_path "[1..<Suc n]"
        "\<lambda>k. fold (step m x y batch_size) [0..<k] w0" "files fs"] assms(2)
    by (simp del: upt_Suc set_upt)
qed

lemma on_epoch_end_checkpoint:
  "on_epoch_end (ModelCheckpoint ''./checkpoints/model{epoch:02d}.h5'' ''epoch'') e w d =
     Inr (d\<lparr>files := AList.update (checkpoint_path (Suc e)) w (files d)\<rparr>)"
  by (simp add: on_epoch_end_def format_checkpoint del: format_str.simps)

lemma checkpoint_path_two_digits:
  "k < 100 \<Longrightarrow>
     checkpoint_path k = ''./checkpoints/model'' @ [digit (k div 10), digit (k mod 10)] @ ''.h5''"
  by (simp add: checkpoint_path_def epoch_file_two_digits)

lemma ls_checkpoints_50:
  assumes "ls ''checkpoints'' fs = []"
  shows "ls ''checkpoints'' (snd (fit_model step w0 now iris m fs)) = map epoch_file [1..<51]"
proof (rule ls_eqI)
  show "sorted (map epoch_file [1..<51])" by (rule sorted_epoch_files_50)
  show "distinct (map epoch_file [1..<51])"
    by (simp add: distinct_map inj_on_def del: upt_Suc) (auto dest: epoch_file_inj)
  have "{1..50 :: nat} = set [1..<51]" by auto
  then show "set (ls ''checkpoints'' (snd (fit_model step w0 now iris m fs))) =
      set (map epoch_file [1..<51])"
    using ls_checkpoints_fit [of step w0 m "data iris" "target iris" 32 50 1 now fs
        "fst (fit_model step w0 now iris m fs)" "snd (fit_model step w0 now iris m fs)"] assms
    by (simp add: fit_model_fit del: upt_Suc set_upt)
qed

subsection \<open>Log directories\<close>

lemma stamp_inj:
  assumes "valid_datetime t" and "valid_datetime t'" and "stamp t = stamp t'"
  shows "to_second t = to_second t'"
proof -
  define f where "f n = rjust 2 CHR ''0'' (dec n)" for n
  have len: "length (f n) = 2" if "n < 100" for n
    using that by (simp add: f_def length_rjust2)
  have inj: "f a = f b \<Longrightarrow> a = b" for a b
    by (simp add: f_def rjust2_inj)
  have t: "month t < 100" "day t < 100" "hour t < 100" "minute t < 100" "second t < 100"
    and t': "month t' < 100" "day t' < 100" "hour t' < 100" "minute t' < 100" "second t' < 100"
    using assms(1,2) by (simp_all add: valid_datetime_def)
  have s: "stamp u = dec (year u) @ (CHR ''-'' # f (month u) @ CHR ''-'' # f (day u) @
      CHR ''-'' # f (hour u) @ CHR ''-'' # f (minute u) @ CHR ''-'' # f (second u))" for u
    by (simp add: stamp_def f_def)
  let ?tail = "\<lambda>u. CHR ''-'' # f (month u) @ CHR ''-'' # f (day u) @
      CHR ''-'' # f (hour u) @ CHR ''-'' # f (minute u) @ CHR ''-'' # f (second u)"
  have l: "length (?tail t) = length (?tail t')"
    using t t' by (simp add: len)
  have e: "dec (year t) @ ?tail t = dec (year t') @ ?tail t'"
    using assms(3) unfolding s .
  have y: "dec (year t) = dec (year t')" and r: "?tail t = ?tail t'"
    using append_eq_append_conv [of "dec (year t)" "dec (year t')" "?tail t" "?tail t'"] l e
    by blast+
  from r have "f (month t) = f (month t') \<and> f (day t) = f (day t') \<and>
      f (hour t) = f (hour t') \<and> f (minute t) = f (minute t') \<and> f (second t) = f (second t')"
    using t t' by (simp add: append_eq_append_conv len)
  then show ?thesis using y by (auto simp: to_second_def dest: inj dec_inj)
qed

lemma valid_recorded_time: "valid_datetime recorded_time"
  by (simp add: valid_datetime_def recorded_time_def)

lemma ls_logs_recorded_disk:
  "ls ''logs'' (recorded_disk :: 'w world) = map stamp recorded_earlier"
  by code_simp

lemma stamp_recorded_time: "stamp recorded_time = ''2020-05-06-12-51-23''"
  by code_simp

lemma recorded_earlier_seconds:
  "\<forall>t\<in>set recorded_earlier. valid_datetime t \<and> to_second t \<noteq> to_second recorded_time"
  by (simp add: recorded_earlier_def valid_datetime_def to_second_def recorded_time_def)

lemma stamp_microsecond: "stamp (t\<lparr>microsecond := u\<rparr>) = stamp t"
  by (simp add: stamp_def)

lemma ls_logs_trained:
  "set (ls ''logs'' (trained step w0 now fs)) = insert (stamp now) (set (ls ''logs'' fs))"
  using ls_logs_fit [of step w0 "compile_model model" "data load_iris" "target load_iris" 32 50 1
      now fs "fst (fit_model step w0 now load_iris (compile_model model) fs)"
      "trained step w0 now fs"]
  by (simp add: fit_model_fit trained_def)

lemma same_stamp_same_listing:
  assumes "stamp t' = stamp t"
  shows "ls ''logs'' (trained step w0 t' (trained step w0 t fs)) =
         ls ''logs'' (trained step w0 t fs)"
proof -
  have "set (ls ''logs'' (trained step w0 t' (trained step w0 t fs))) =
      set (ls ''logs'' (trained step w0 t fs))"
    unfolding ls_logs_trained assms by simp
  then show ?thesis
    using ls_sorted_list [of "''logs''" "trained step w0 t' (trained step w0 t fs)"]
      ls_sorted_list [of "''logs''" "trained step w0 t fs"]
    by simp
qed

text \<open>
  The model against the record: run at the recorded time, on a disk with the four earlier
  log directories, the notebook prints the listing that the notebook file holds.
\<close>

lemma ls_checkpoints_recorded_disk: "ls ''checkpoints'' (recorded_disk :: 'w world) = []"
  by code_simp

lemma logs_recorded: "snd (recorded_listing ! 1) = map stamp recorded_earlier @ [stamp recorded_time]"
  by code_simp

lemma sorted_logs_recorded: "sorted (snd (recorded_listing ! 1)) \<and> distinct (snd (recorded_listing ! 1))"
  by code_simp

lemma recorded_run:
  "outcome (\<lambda>c. None :: (unit \<times> nat) option) step w0 recorded_time recorded_disk = Inr recorded_listing"
proof -
  have c: "ls ''checkpoints'' (trained step w0 recorded_time recorded_disk) =
      snd (hd recorded_listing)"
    unfolding trained_def
    by (simp only: ls_checkpoints_50 [OF ls_checkpoints_recorded_disk] epoch_files_50)
  have "set (ls ''logs'' (trained step w0 recorded_time recorded_disk)) =
      set (snd (recorded_listing ! 1))"
    unfolding ls_logs_trained ls_logs_recorded_disk logs_recorded by simp
  then have l: "ls ''logs'' (trained step w0 recorded_time recorded_disk) =
      snd (recorded_listing ! 1)"
    using sorted_logs_recorded by (intro ls_eqI) simp_all
  have r: "recorded_listing =
      [(''checkpoints'', snd (hd recorded_listing)), (''logs'', snd (recorded_listing ! 1))]"
    by (simp add: recorded_listing_def)
  have "outcome (\<lambda>c. None :: (unit \<times> nat) option) step w0 recorded_time recorded_disk =
      Inr [(''checkpoints'', ls ''checkpoints'' (trained step w0 recorded_time recorded_disk)),
           (''logs'', ls ''logs'' (trained step w0 recorded_time recorded_disk))]"
    by (simp add: outcome_eq)
  also have "\<dots> = Inr [(''checkpoints'', snd (hd recorded_listing)),
      (''logs'', snd (recorded_listing ! 1))]"
    by (simp only: c l)
  also have "\<dots> = Inr recorded_listing"
    by (rule arg_cong [of _ _ Inr]) (rule r [symmetric])
  finally show ?thesis .
qed

subsection \<open>Cells and exceptions\<close>

lemma cells_cases:
  assumes "i < length cells"
  obtains "i = 0" | "i = 1" | "i = 2" | "i = 3" | "i = 4" | "i = 5"
  using assms unfolding cells_def by (simp add: less_Suc_eq numeral_eq_Suc) blast

text \<open>
  What a training that is interrupted leaves behind stays on disk: the log directory, and
  the checkpoint files of the epochs that were completed.
\<close>

lemma interrupted_fit:
  assumes "raises Imports = None" "raises LoadData = None" "raises BuildModel = None"
    "raises CompileModel = None" "raises FitModel = Some (e, j + 2)"
  shows "outcome raises step w0 now fs = Inl (FrameworkError e) \<and>
     disk (final raises step w0 now fs) =
       \<lparr>files = fold (\<lambda>k. AList.update (checkpoint_path k)
                         (fold (step compiled [150, 4] [150] 32) [0..<k] w0))
                      [1..<Suc (min j 50)] (files fs),
        dirs = List.insert (log_path now) (dirs fs)\<rparr>"
  using assms by (simp add: outcome_eq final_def notebook_eq del: upt_Suc)

section \<open>The claims\<close>

text \<open>
  Claim C2. The model the notebook builds is a stack of exactly three layers, each of
  class \<^verbatim>\<open>Dense\<close>, in the order of the three \<^verbatim>\<open>add\<close> calls. Adding a layer puts it
  after those already there, and a forward pass applies it to what the earlier layers
  produce; so the input goes through the first hidden layer, then the second, then the
  output layer.
\<close>

theorem three_dense_layers:
  "layers model =
     [Dense 10 (Some relu) (Some [4]), Dense 10 (Some relu) None, Dense 3 None None] \<and>
   length (layers model) = 3 \<and>
   map class_name (layers model) = [''Dense'', ''Dense'', ''Dense''] \<and>
   layers (add m l) = layers m @ [l] \<and>
   call f (add m l) x = f l (call f m x) \<and>
   call f model x =
     f (Dense 3 None None) (f (Dense 10 (Some relu) None) (f (Dense 10 (Some relu) (Some [4])) x))"
  by (simp add: layers_model layers_add call_add class_name_def call_def)

text \<open>
  Claim C3. The training cell calls \<^verbatim>\<open>fit\<close> with the literal \<^verbatim>\<open>epochs=50\<close>. Whatever
  the time, the data, the model, the initial parameters, the numerical training step and
  the disk are, the call returns normally with a history of exactly the 50 epochs
  \<open>0, \<dots>, 49\<close>, each run once and in order: neither callback stops the loop early.
\<close>

theorem fixed_number_of_epochs:
  "\<exists>cbs h fs'.
     callbacks now = Inr cbs \<and>
     fit_model step w0 now iris m fs = fit step w0 m (data iris) (target iris) 32 50 1 cbs fs \<and>
     fit_model step w0 now iris m fs = (Inr h, fs') \<and>
     epoch h = [0..<50] \<and> length (epoch h) = 50 \<and>
     weights h = fold (step m (data iris) (target iris) 32) [0..<50] w0"
proof -
  let ?cbs = "[TensorBoard (log_path now),
               ModelCheckpoint ''./checkpoints/model{epoch:02d}.h5'' ''epoch'']"
  let ?h = "\<lparr>epoch = [0..<50],
             weights = fold (step m (data iris) (target iris) 32) [0..<50] w0\<rparr>"
  have "callbacks now = Inr ?cbs"
    by (rule callbacks_eq)
  moreover have "fit_model step w0 now iris m fs =
      fit step w0 m (data iris) (target iris) 32 50 1 ?cbs fs"
    by (rule fit_model_fit)
  moreover have "fit_model step w0 now iris m fs = (Inr ?h, snd (fit_model step w0 now iris m fs))"
    by (rule fit_model_Inr)
  moreover have "epoch ?h = [0..<50]" and "length (epoch ?h) = 50"
    and "weights ?h = fold (step m (data iris) (target iris) 32) [0..<50] w0"
    by simp_all
  ultimately show ?thesis by blast
qed

text \<open>
  Claim C5. The list passed as \<^verbatim>\<open>callbacks\<close> to \<^verbatim>\<open>fit\<close> has exactly two elements, an
  instance of \<^verbatim>\<open>tf.keras.callbacks.TensorBoard\<close> followed by an instance of
  \<^verbatim>\<open>tf.keras.callbacks.ModelCheckpoint\<close>, both classes of the framework; nothing else is
  passed.
\<close>

theorem two_framework_callbacks:
  "\<exists>dir.
     callbacks now =
       Inr [TensorBoard dir, ModelCheckpoint ''./checkpoints/model{epoch:02d}.h5'' ''epoch''] \<and>
     fit_model step w0 now iris m fs =
       fit step w0 m (data iris) (target iris) 32 50 1
         [TensorBoard dir, ModelCheckpoint ''./checkpoints/model{epoch:02d}.h5'' ''epoch''] fs \<and>
     length [TensorBoard dir, ModelCheckpoint ''./checkpoints/model{epoch:02d}.h5'' ''epoch''] = 2 \<and>
     map qualified_name
         [TensorBoard dir, ModelCheckpoint ''./checkpoints/model{epoch:02d}.h5'' ''epoch''] =
       [''tf.keras.callbacks.TensorBoard'', ''tf.keras.callbacks.ModelCheckpoint'']"
  using fit_model_fit [of step w0 now iris m fs]
  by (simp add: callbacks_eq qualified_name_def)

text \<open>
  Claim C8. The last layer of the compiled model has no activation, and its loss is
  \<^verbatim>\<open>SparseCategoricalCrossentropy(from_logits=True)\<close>: both ends use raw scores. A run
  of the notebook trains this very model, and every one of its 50 epochs is a training
  step on it.
\<close>

theorem logits_convention_holds:
  "activation (last (layers (compile_model model))) = None \<and>
   loss (compile_model model) = Some (SparseCategoricalCrossentropy True) \<and>
   logits_convention (compile_model model) \<and>
   disk (final (\<lambda>c. None) step w0 now fs) =
     snd (fit_model step w0 now load_iris (compile_model model) fs) \<and>
   fst (fit_model step w0 now load_iris (compile_model model) fs) =
     Inr \<lparr>epoch = [0..<50],
          weights = fold (step (compile_model model) (data load_iris) (target load_iris) 32)
                      [0..<50] w0\<rparr>"
proof -
  have "layers (compile_model model) = layers model"
    and "loss (compile_model model) = Some (SparseCategoricalCrossentropy True)"
    by (simp_all add: compile_model_def compile_def)
  then have "activation (last (layers (compile_model model))) = None"
    and "loss (compile_model model) = Some (SparseCategoricalCrossentropy True)"
    and "logits_convention (compile_model model)"
    by (simp_all add: layers_model logits_convention_def)
  moreover have "fst (fit_model step w0 now load_iris (compile_model model) fs) =
     Inr \<lparr>epoch = [0..<50],
          weights = fold (step (compile_model model) (data load_iris) (target load_iris) 32)
                      [0..<50] w0\<rparr>"
    by (subst fit_model_Inr) (simp only: fst_conv)
  moreover have "disk (final (\<lambda>c. None) step w0 now fs) =
     snd (fit_model step w0 now load_iris (compile_model model) fs)"
    by (simp only: disk_final trained_def)
  ultimately show ?thesis by (simp only: simp_thms)
qed

text \<open>
  Claim C10. The first layer's input shape is \<open>(4,)\<close>, the number of features of the Iris
  data; the output layer has 3 units, the number of its classes; the two hidden layers have
  10 units with ReLU; and \<^verbatim>\<open>summary\<close> gives the table recorded in the notebook, with
  \<open>4 * 10 + 10\<close>, \<open>10 * 10 + 10\<close> and \<open>10 * 3 + 3\<close> parameters in the three layers, 193 in
  total, all of them trainable.
\<close>

theorem network_matches_iris:
  "input_shape (hd (layers model)) = Some [4] \<and>
   data load_iris = [150, 4] \<and> last (data load_iris) = n_input \<and>
   length (feature_names load_iris) = n_input \<and>
   units (last (layers model)) = 3 \<and> n_output = 3 \<and>
   length (target_names load_iris) = n_output \<and>
   map (\<lambda>l. (units l, activation l)) (butlast (layers model)) =
     [(10, Some relu), (10, Some relu)] \<and>
   summary model = Inr recorded_summary \<and>
   map (\<lambda>(c, u, p). p) (rows recorded_summary) = [4 * 10 + 10, 10 * 10 + 10, 10 * 3 + 3] \<and>
   total_params recorded_summary = 193 \<and>
   trainable_params recorded_summary = 193 \<and>
   (193 :: nat) = 4 * 10 + 10 + 10 * 10 + 10 + 10 * 3 + 3"
  by (simp add: layers_model load_iris_def n_input_def n_output_def summary_model
      recorded_summary_def)

text \<open>
  Claim C1. With the callbacks of the notebook, training for \<open>n\<close> epochs returns normally
  and leaves in the checkpoints directory, besides what was there, exactly the \<open>n\<close> files
  named by the epoch numbers \<open>1, \<dots>, n\<close>, which are \<open>n\<close> different names: one file per
  epoch, \<open>n\<close> files in a directory that was empty. The file of epoch \<open>k\<close> holds the
  parameters as they were after \<open>k\<close> epochs, and no other file is touched. The call of the
  notebook is the case \<open>n = 50\<close>.
\<close>

theorem checkpoint_per_epoch:
  assumes "callbacks now = Inr cbs"
  shows "\<exists>h fs'.
     fit step w0 m x y batch_size n verbose cbs fs = (Inr h, fs') \<and>
     epoch h = [0..<n] \<and>
     set (ls ''checkpoints'' fs') = set (ls ''checkpoints'' fs) \<union> epoch_file ` {1..n} \<and>
     card (epoch_file ` {1..n}) = n \<and>
     (ls ''checkpoints'' fs = [] \<longrightarrow> length (ls ''checkpoints'' fs') = n) \<and>
     (\<forall>k\<in>{1..n}. map_of (files fs') (checkpoint_path k) =
        Some (fold (step m x y batch_size) [0..<k] w0)) \<and>
     (\<forall>p. p \<notin> checkpoint_path ` {1..n} \<longrightarrow> map_of (files fs') p = map_of (files fs) p) \<and>
     fit_model step w0 now iris m fs = fit step w0 m (data iris) (target iris) 32 50 1 cbs fs"
proof -
  let ?cbs = "[TensorBoard (log_path now),
               ModelCheckpoint ''./checkpoints/model{epoch:02d}.h5'' ''epoch'']"
  let ?h = "\<lparr>epoch = [0..<n], weights = fold (step m x y batch_size) [0..<n] w0\<rparr>"
  let ?fs = "snd (fit step w0 m x y batch_size n verbose ?cbs fs)"
  have cbs: "cbs = ?cbs" using assms by (simp add: callbacks_eq)
  have run: "fit step w0 m x y batch_size n verbose ?cbs fs = (Inr ?h, ?fs)"
    unfolding fit_notebook by simp
  have names: "set (ls ''checkpoints'' ?fs) = set (ls ''checkpoints'' fs) \<union> epoch_file ` {1..n}"
    by (rule ls_checkpoints_fit [OF run])
  have count: "length (ls ''checkpoints'' ?fs) = n" if "ls ''checkpoints'' fs = []"
    using that names card_epoch_files [of n] by (simp add: length_ls)
  have saved: "\<forall>k\<in>{1..n}. map_of (files ?fs) (checkpoint_path k) =
      Some (fold (step m x y batch_size) [0..<k] w0)"
    using saved_after_fit [OF run] by blast
  have others: "\<forall>p. p \<notin> checkpoint_path ` {1..n} \<longrightarrow> map_of (files ?fs) p = map_of (files fs) p"
    using others_after_fit [OF run] by blast
  have "epoch ?h = [0..<n]" by simp
  with run names count saved others card_epoch_files [of n]
    fit_model_fit [of step w0 now iris m fs]
  show ?thesis unfolding cbs by blast
qed

theorem checkpoint_per_epoch_witness:
  "callbacks recorded_time =
     Inr [TensorBoard ''./logs/2020-05-06-12-51-23'',
          ModelCheckpoint ''./checkpoints/model{epoch:02d}.h5'' ''epoch''] \<and>
   (\<exists>h fs'.
      fit (\<lambda>m x y b e w. Suc w) (0 :: nat) (compile_model model) [150, 4] [150] 32 50 1
        [TensorBoard ''./logs/2020-05-06-12-51-23'',
         ModelCheckpoint ''./checkpoints/model{epoch:02d}.h5'' ''epoch''] recorded_disk = (Inr h, fs') \<and>
      length (epoch h) = 50 \<and>
      length (ls ''checkpoints'' fs') = 50 \<and>
      map_of (files fs') ''./checkpoints/model07.h5'' = Some 7)"
proof -
  have c: "callbacks recorded_time =
     Inr [TensorBoard ''./logs/2020-05-06-12-51-23'',
          ModelCheckpoint ''./checkpoints/model{epoch:02d}.h5'' ''epoch'']"
    by code_simp
  have e: "ls ''checkpoints'' (recorded_disk :: nat world) = []"
    by code_simp
  have p: "checkpoint_path 7 = ''./checkpoints/model07.h5''"
    by code_simp
  have w: "fold (\<lambda>e w. Suc w) [0..<7] (0 :: nat) = 7"
    by code_simp
  have k: "(7 :: nat) \<in> {1..50}" by simp
  from checkpoint_per_epoch [OF c, of "\<lambda>m x y b e w. Suc w" 0 "compile_model model" "[150, 4]"
      "[150]" 32 50 1 recorded_disk]
  obtain h fs' where
    "fit (\<lambda>m x y b e w. Suc w) (0 :: nat) (compile_model model) [150, 4] [150] 32 50 1
        [TensorBoard ''./logs/2020-05-06-12-51-23'',
         ModelCheckpoint ''./checkpoints/model{epoch:02d}.h5'' ''epoch''] recorded_disk = (Inr h, fs')"
    and "epoch h = [0..<50]"
    and "ls ''checkpoints'' (recorded_disk :: nat world) = [] \<longrightarrow> length (ls ''checkpoints'' fs') = 50"
    and "\<forall>k\<in>{1..50}. map_of (files fs') (checkpoint_path k) = Some (fold (\<lambda>e w. Suc w) [0..<k] 0)"
    by blast
  with e p w k c show ?thesis by (metis length_upt diff_zero)
qed

text \<open>
  Claim C9. The training cell runs the epochs \<open>0, \<dots>, 49\<close>, and at the end of the \<open>k\<close>-th
  of them (\<open>k\<close> from 1 to 50) the checkpoint callback writes the file whose name is
  \<^verbatim>\<open>model\<close>, the two decimal digits of \<open>k\<close>, \<^verbatim>\<open>.h5\<close>: the number \<open>k\<close> padded with a zero
  to width two. The first name is \<^verbatim>\<open>model01.h5\<close>, the last \<^verbatim>\<open>model50.h5\<close>. In a
  checkpoints directory that was empty, the listing afterwards is the one recorded in the
  notebook, with the file of epoch \<open>k\<close> in place \<open>k\<close>, and there is no \<^verbatim>\<open>model00.h5\<close>.
\<close>

theorem checkpoint_file_names:
  "\<exists>h fs'.
     fit_model step w0 now iris m fs = (Inr h, fs') \<and>
     epoch h = [0..<50] \<and>
     (\<forall>k\<in>{1..50}.
        epoch_file k = ''model'' @ [digit (k div 10), digit (k mod 10)] @ ''.h5'' \<and>
        on_epoch_end (ModelCheckpoint ''./checkpoints/model{epoch:02d}.h5'' ''epoch'') (k - 1) w d =
          Inr (d\<lparr>files := AList.update (''./checkpoints/'' @ epoch_file k) w (files d)\<rparr>) \<and>
        epoch_file k \<in> set (ls ''checkpoints'' fs')) \<and>
     epoch_file 1 = ''model01.h5'' \<and> epoch_file 50 = ''model50.h5'' \<and>
     (ls ''checkpoints'' fs = [] \<longrightarrow>
        ls ''checkpoints'' fs' = snd (hd recorded_listing) \<and>
        (\<forall>k\<in>{1..50}. ls ''checkpoints'' fs' ! (k - 1) = epoch_file k) \<and>
        hd (ls ''checkpoints'' fs') = ''model01.h5'' \<and>
        ''model00.h5'' \<notin> set (ls ''checkpoints'' fs'))"
proof -
  let ?h = "\<lparr>epoch = [0..<50],
             weights = fold (step m (data iris) (target iris) 32) [0..<50] w0\<rparr>"
  let ?fs = "snd (fit_model step w0 now iris m fs)"
  have run: "fit_model step w0 now iris m fs = (Inr ?h, ?fs)"
    by (rule fit_model_Inr)
  have names: "set (ls ''checkpoints'' ?fs) = set (ls ''checkpoints'' fs) \<union> epoch_file ` {1..50}"
    using ls_checkpoints_fit [of step w0 m "data iris" "target iris" 32 50 1 now fs
        "fst (fit_model step w0 now iris m fs)" ?fs]
    by (simp add: fit_model_fit)
  have each: "\<forall>k\<in>{1..50}.
        epoch_file k = ''model'' @ [digit (k div 10), digit (k mod 10)] @ ''.h5'' \<and>
        on_epoch_end (ModelCheckpoint ''./checkpoints/model{epoch:02d}.h5'' ''epoch'') (k - 1) w d =
          Inr (d\<lparr>files := AList.update (''./checkpoints/'' @ epoch_file k) w (files d)\<rparr>) \<and>
        epoch_file k \<in> set (ls ''checkpoints'' ?fs)"
  proof
    fix k :: nat
    assume k: "k \<in> {1..50}"
    then have lt: "k < 100" and suc: "Suc (k - 1) = k" by simp_all
    have a: "epoch_file k = ''model'' @ [digit (k div 10), digit (k mod 10)] @ ''.h5''"
      by (rule epoch_file_two_digits [OF lt])
    have b: "on_epoch_end (ModelCheckpoint ''./checkpoints/model{epoch:02d}.h5'' ''epoch'')
          (k - 1) w d =
        Inr (d\<lparr>files := AList.update (''./checkpoints/'' @ epoch_file k) w (files d)\<rparr>)"
      using on_epoch_end_checkpoint [of "k - 1" w d]
      by (simp only: suc checkpoint_path_def)
    have c: "epoch_file k \<in> set (ls ''checkpoints'' ?fs)"
      unfolding names using k by blast
    from a b c
    show "epoch_file k = ''model'' @ [digit (k div 10), digit (k mod 10)] @ ''.h5'' \<and>
        on_epoch_end (ModelCheckpoint ''./checkpoints/model{epoch:02d}.h5'' ''epoch'') (k - 1) w d =
          Inr (d\<lparr>files := AList.update (''./checkpoints/'' @ epoch_file k) w (files d)\<rparr>) \<and>
        epoch_file k \<in> set (ls ''checkpoints'' ?fs)"
      by (intro conjI)
  qed
  have first: "epoch_file 1 = ''model01.h5''" and last: "epoch_file 50 = ''model50.h5''"
    by code_simp+
  have listing: "ls ''checkpoints'' ?fs = snd (hd recorded_listing) \<and>
        (\<forall>k\<in>{1..50}. ls ''checkpoints'' ?fs ! (k - 1) = epoch_file k) \<and>
        hd (ls ''checkpoints'' ?fs) = ''model01.h5'' \<and>
        ''model00.h5'' \<notin> set (ls ''checkpoints'' ?fs)" if "ls ''checkpoints'' fs = []"
  proof -
    have l: "ls ''checkpoints'' ?fs = map epoch_file [1..<51]"
      by (rule ls_checkpoints_50 [OF that])
    have n: "\<forall>k\<in>{1..50}. map epoch_file [1..<51] ! (k - 1) = epoch_file k"
    proof
      fix k :: nat
      assume "k \<in> {1..50}"
      then have "k - 1 < length [1..<51]" and "[1..<51] ! (k - 1) = k"
        by (auto simp add: nth_upt simp del: upt_Suc)
      then show "map epoch_file [1..<51] ! (k - 1) = epoch_file k"
        by (simp only: nth_map)
    qed
    have h: "hd (snd (hd recorded_listing)) = ''model01.h5''"
      and z: "''model00.h5'' \<notin> set (snd (hd recorded_listing))"
      by code_simp+
    show ?thesis
      using n h z unfolding l epoch_files_50 [symmetric] by (simp only: epoch_files_50 simp_thms)
  qed
  have epochs: "epoch ?h = [0..<50]" by simp
  show ?thesis
    apply (rule exI [of _ ?h])
    apply (rule exI [of _ ?fs])
    using run epochs each first last listing by blast
qed

theorem checkpoint_file_names_witness:
  "(1 :: nat) \<in> {1..50} \<and> ls ''checkpoints'' (recorded_disk :: nat world) = [] \<and>
   (\<exists>h fs'.
      fit_model (\<lambda>m x y b e w. Suc w) (0 :: nat) recorded_time load_iris (compile_model model)
        recorded_disk = (Inr h, fs') \<and>
      ls ''checkpoints'' fs' = snd (hd recorded_listing) \<and>
      ls ''checkpoints'' fs' ! 0 = ''model01.h5'' \<and>
      ''model01.h5'' \<in> set (ls ''checkpoints'' fs') \<and>
      ''model00.h5'' \<notin> set (ls ''checkpoints'' fs'))"
proof -
  have e: "ls ''checkpoints'' (recorded_disk :: nat world) = []"
    by code_simp
  have k: "(1 :: nat) \<in> {1..50}" by simp
  from checkpoint_file_names [of "\<lambda>m x y b e w. Suc w" 0 recorded_time load_iris
      "compile_model model" recorded_disk "0 :: nat" "recorded_disk :: nat world"]
  obtain h fs' where
    run: "fit_model (\<lambda>m x y b e w. Suc w) (0 :: nat) recorded_time load_iris (compile_model model)
        recorded_disk = (Inr h, fs')"
    and each: "\<forall>k\<in>{1..50}. epoch_file k \<in> set (ls ''checkpoints'' fs')"
    and first: "epoch_file 1 = ''model01.h5''"
    and listing: "ls ''checkpoints'' (recorded_disk :: nat world) = [] \<longrightarrow>
        ls ''checkpoints'' fs' = snd (hd recorded_listing) \<and>
        (\<forall>k\<in>{1..50}. ls ''checkpoints'' fs' ! (k - 1) = epoch_file k) \<and>
        hd (ls ''checkpoints'' fs') = ''model01.h5'' \<and>
        ''model00.h5'' \<notin> set (ls ''checkpoints'' fs')"
    by blast
  from each k first have "''model01.h5'' \<in> set (ls ''checkpoints'' fs')"
    by force
  moreover from listing e k first have "ls ''checkpoints'' fs' ! 0 = ''model01.h5''"
    by force
  ultimately show ?thesis using run listing e k by blast
qed

text \<open>
  Claim C6. The cells are the list: imports, load the data, build the model, compile it,
  train it with the two callbacks, list the directories. Every run executes an initial
  part of this list; leaving the import cell aside, the steps taken are an initial part of:
  load, build, compile, fit, inspect. A cell is started exactly if all the cells above it
  have ended normally, and the run goes on from the kernel they have left. That kernel is
  what the steps ahead have done and nothing more. When the data is loaded, only the
  imports are bound. When the model is built, the dataset is bound and there is no model.
  When the model is compiled, it is the network of three layers, without optimizer or
  loss. When \<^verbatim>\<open>fit\<close> is called, the model is the compiled one, no callbacks and no
  history are bound, and the disk is as the run found it. When the directories are
  listed, the two callbacks and the history of 50 epochs are bound and the disk holds the
  log directory and the 50 checkpoint files. A run that does not reach the training cell
  leaves the disk as it was, a run that does not reach the last cell has listed nothing,
  and a run in which nothing is raised executes all the cells and lists the disk as the
  training left it.
\<close>

theorem cells_run_in_order:
  "cells = [Imports, LoadData, BuildModel, CompileModel, FitModel, Inspect] \<and>
   prefix (executed (final raises step w0 now fs)) cells \<and>
   prefix (filter (\<lambda>c. c \<noteq> Imports) (executed (final raises step w0 now fs)))
     [LoadData, BuildModel, CompileModel, FitModel, Inspect] \<and>
   (\<forall>c. c \<in> set (executed (final raises step w0 now fs)) \<longleftrightarrow> at_start raises step w0 now fs c \<noteq> None) \<and>
   (\<forall>c k. at_start raises step w0 now fs c = Some k \<longrightarrow>
      notebook raises step w0 now (fresh fs) =
        run_cells raises (source step w0 now) (dropWhile (\<lambda>c'. c' \<noteq> c) cells) k) \<and>
   (\<forall>k. at_start raises step w0 now fs LoadData = Some k \<longrightarrow>
      k = \<lparr>executed = [Imports],
           globals = modules,
           listing = [],
           disk = fs\<rparr>) \<and>
   (\<forall>k. at_start raises step w0 now fs BuildModel = Some k \<longrightarrow>
      k = \<lparr>executed = [Imports, LoadData],
           globals = modules @ [(''iris'', Bunch load_iris)],
           listing = [],
           disk = fs\<rparr>) \<and>
   (\<forall>k. at_start raises step w0 now fs CompileModel = Some k \<longrightarrow>
      k = \<lparr>executed = [Imports, LoadData, BuildModel],
           globals = modules @ [(''iris'', Bunch load_iris), (''n_input'', Number 4), (''n_output'', Number 3),
                      (''model'', Model built)],
           listing = [],
           disk = fs\<rparr>) \<and>
   (\<forall>k. at_start raises step w0 now fs FitModel = Some k \<longrightarrow>
      k = \<lparr>executed = [Imports, LoadData, BuildModel, CompileModel],
           globals = modules @ [(''iris'', Bunch load_iris), (''n_input'', Number 4), (''n_output'', Number 3),
                      (''model'', Model compiled)],
           listing = [],
           disk = fs\<rparr>) \<and>
   (\<forall>k. at_start raises step w0 now fs Inspect = Some k \<longrightarrow>
      k = \<lparr>executed = [Imports, LoadData, BuildModel, CompileModel, FitModel],
           globals = modules @ [(''iris'', Bunch load_iris), (''n_input'', Number 4), (''n_output'', Number 3),
                      (''model'', Model compiled),
                      (''callbacks'', Callbacks
                       [TensorBoard (log_path now),
                        ModelCheckpoint ''./checkpoints/model{epoch:02d}.h5'' ''epoch'']),
                      (''history'', Hist \<lparr>epoch = [0..<50],
                       weights = fold (step compiled [150, 4] [150] 32) [0..<50] w0\<rparr>)],
           listing = [],
           disk = \<lparr>files = fold (\<lambda>k. AList.update (checkpoint_path k)
                               (fold (step compiled [150, 4] [150] 32) [0..<k] w0))
                            [1..<51] (files fs),
                   dirs = List.insert (log_path now) (dirs fs)\<rparr>\<rparr>) \<and>
   (FitModel \<notin> set (executed (final raises step w0 now fs)) \<longrightarrow> disk (final raises step w0 now fs) = fs) \<and>
   (Inspect \<notin> set (executed (final raises step w0 now fs)) \<longrightarrow> listing (final raises step w0 now fs) = []) \<and>
   ((\<forall>c. raises c = None) \<longrightarrow>
      executed (final raises step w0 now fs) = cells \<and>
      disk (final raises step w0 now fs) = trained step w0 now fs \<and>
      outcome raises step w0 now fs =
        Inr [(''checkpoints'', ls ''checkpoints'' (trained step w0 now fs)),
             (''logs'', ls ''logs'' (trained step w0 now fs))])"
proof -
  have "cells = [Imports, LoadData, BuildModel, CompileModel, FitModel, Inspect]"
    by (simp add: cells_def)
  moreover note prefix_executed [of raises step w0 now fs] prefix_steps [of raises step w0 now fs]
  moreover have "\<forall>c. c \<in> set (executed (final raises step w0 now fs)) \<longleftrightarrow>
      at_start raises step w0 now fs c \<noteq> None"
    using started_iff [of _ raises step w0 now fs] by blast
  moreover have "\<forall>c k. at_start raises step w0 now fs c = Some k \<longrightarrow>
      notebook raises step w0 now (fresh fs) =
        run_cells raises (source step w0 now) (dropWhile (\<lambda>c'. c' \<noteq> c) cells) k"
    using at_start_continues [of raises step w0 now fs] by blast
  moreover have "\<forall>k. at_start raises step w0 now fs LoadData = Some k \<longrightarrow>
      k = \<lparr>executed = [Imports],
           globals = modules,
           listing = [],
           disk = fs\<rparr>"
    by (simp add: at_start_LoadData split: option.splits del: upt_Suc)
  moreover have "\<forall>k. at_start raises step w0 now fs BuildModel = Some k \<longrightarrow>
      k = \<lparr>executed = [Imports, LoadData],
           globals = modules @ [(''iris'', Bunch load_iris)],
           listing = [],
           disk = fs\<rparr>"
    by (simp add: at_start_BuildModel split: option.splits del: upt_Suc)
  moreover have "\<forall>k. at_start raises step w0 now fs CompileModel = Some k \<longrightarrow>
      k = \<lparr>executed = [Imports, LoadData, BuildModel],
           globals = modules @ [(''iris'', Bunch load_iris), (''n_input'', Number 4), (''n_output'', Number 3),
                      (''model'', Model built)],
           listing = [],
           disk = fs\<rparr>"
    by (simp add: at_start_CompileModel split: option.splits del: upt_Suc)
  moreover have "\<forall>k. at_start raises step w0 now fs FitModel = Some k \<longrightarrow>
      k = \<lparr>executed = [Imports, LoadData, BuildModel, CompileModel],
           globals = modules @ [(''iris'', Bunch load_iris), (''n_input'', Number 4), (''n_output'', Number 3),
                      (''model'', Model compiled)],
           listing = [],
           disk = fs\<rparr>"
    by (simp add: at_start_FitModel split: option.splits del: upt_Suc)
  moreover have "\<forall>k. at_start raises step w0 now fs Inspect = Some k \<longrightarrow>
      k = \<lparr>executed = [Imports, LoadData, BuildModel, CompileModel, FitModel],
           globals = modules @ [(''iris'', Bunch load_iris), (''n_input'', Number 4), (''n_output'', Number 3),
                      (''model'', Model compiled),
                      (''callbacks'', Callbacks
                       [TensorBoard (log_path now),
                        ModelCheckpoint ''./checkpoints/model{epoch:02d}.h5'' ''epoch'']),
                      (''history'', Hist \<lparr>epoch = [0..<50],
                       weights = fold (step compiled [150, 4] [150] 32) [0..<50] w0\<rparr>)],
           listing = [],
           disk = \<lparr>files = fold (\<lambda>k. AList.update (checkpoint_path k)
                               (fold (step compiled [150, 4] [150] 32) [0..<k] w0))
                            [1..<51] (files fs),
                   dirs = List.insert (log_path now) (dirs fs)\<rparr>\<rparr>"
    by (simp add: at_start_Inspect split: option.splits del: upt_Suc)
  moreover have "FitModel \<notin> set (executed (final raises step w0 now fs)) \<longrightarrow>
      disk (final raises step w0 now fs) = fs"
    using disk_before_fit [of raises step w0 now fs] by blast
  moreover have "Inspect \<notin> set (executed (final raises step w0 now fs)) \<longrightarrow>
      listing (final raises step w0 now fs) = []"
    using listing_before_inspect [of raises step w0 now fs] by blast
  moreover have "(\<forall>c. raises c = None) \<longrightarrow>
      executed (final raises step w0 now fs) = cells \<and>
      disk (final raises step w0 now fs) = trained step w0 now fs \<and>
      outcome raises step w0 now fs =
        Inr [(''checkpoints'', ls ''checkpoints'' (trained step w0 now fs)),
             (''logs'', ls ''logs'' (trained step w0 now fs))]"
    using run_without_exception [of raises step w0 now fs] by blast
  ultimately show ?thesis
    by (simp only: simp_thms)
qed

theorem cells_run_in_order_witness:
  "executed (final (\<lambda>c. None :: (unit \<times> nat) option) (\<lambda>m x y b e w. Suc w) (0 :: nat)
       recorded_time recorded_disk) =
     [Imports, LoadData, BuildModel, CompileModel, FitModel, Inspect] \<and>
   outcome (\<lambda>c. None :: (unit \<times> nat) option) (\<lambda>m x y b e w. Suc w) (0 :: nat)
       recorded_time recorded_disk = Inr recorded_listing \<and>
   executed (final (\<lambda>c. if c = CompileModel then Some ((), 0 :: nat) else None)
       (\<lambda>m x y b e w. Suc w) (0 :: nat) recorded_time recorded_disk) =
     [Imports, LoadData, BuildModel, CompileModel] \<and>
   disk (final (\<lambda>c. if c = CompileModel then Some ((), 0 :: nat) else None)
       (\<lambda>m x y b e w. Suc w) (0 :: nat) recorded_time recorded_disk) = recorded_disk"
proof -
  let ?none = "\<lambda>c :: cell. None :: (unit \<times> nat) option"
  let ?some = "\<lambda>c. if c = CompileModel then Some ((), 0 :: nat) else None"
  let ?step = "\<lambda>(m :: keras_model) (x :: ndarray) (y :: ndarray) (b :: nat) (e :: nat) w. Suc w"
  have n: "\<forall>c. ?none c = None"
    by simp
  from cells_run_in_order [of ?none ?step "0 :: nat" recorded_time recorded_disk]
  have "(\<forall>c. ?none c = None) \<longrightarrow>
      executed (final ?none ?step 0 recorded_time recorded_disk) = cells"
    and c: "cells = [Imports, LoadData, BuildModel, CompileModel, FitModel, Inspect]"
    by blast+
  with n have a: "executed (final ?none ?step 0 recorded_time recorded_disk) =
      [Imports, LoadData, BuildModel, CompileModel, FitModel, Inspect]"
    by simp
  have e: "executed (final ?some ?step 0 recorded_time recorded_disk) =
      [Imports, LoadData, BuildModel, CompileModel]"
    by (simp add: executed_final cells_def)
  from cells_run_in_order [of ?some ?step "0 :: nat" recorded_time recorded_disk]
  have "FitModel \<notin> set (executed (final ?some ?step 0 recorded_time recorded_disk)) \<longrightarrow>
      disk (final ?some ?step 0 recorded_time recorded_disk) = recorded_disk"
    by blast
  with e have d: "disk (final ?some ?step 0 recorded_time recorded_disk) = recorded_disk"
    by simp
  from a e d recorded_run [of ?step "0 :: nat"] show ?thesis
    by blast
qed

text \<open>
  Claim C7. The notebook catches nothing. If a library call of a cell raises an
  exception \<open>e\<close>, wherever in the cell, and those of the cells before it do not, then the
  outcome of the run is this exception \<open>e\<close>, unchanged, and the run ends with that cell: no
  later cell is started, nothing recovers or retries.
\<close>

theorem exceptions_propagate:
  assumes "i < length cells"
    and "raises (cells ! i) = Some (e, n)"
    and "\<forall>j<i. raises (cells ! j) = None"
  shows "outcome raises step w0 now fs = Inl (FrameworkError e) \<and>
         executed (final raises step w0 now fs) = take (Suc i) cells"
proof -
  have pre: "raises (cells ! j) = None" if "j < i" for j
    using assms(3) that by blast
  from assms(1) show ?thesis
  proof (cases rule: cells_cases)
    case 1
    with assms(2) show ?thesis
      by (simp add: outcome_eq executed_final cells_def)
  next
    case 2
    with assms(2) pre [of 0] show ?thesis
      by (simp add: outcome_eq executed_final cells_def)
  next
    case 3
    with assms(2) pre [of 0] pre [of 1] show ?thesis
      by (simp add: outcome_eq executed_final cells_def)
  next
    case 4
    with assms(2) pre [of 0] pre [of 1] pre [of 2] show ?thesis
      by (simp add: outcome_eq executed_final cells_def)
  next
    case 5
    with assms(2) pre [of 0] pre [of 1] pre [of 2] pre [of 3] show ?thesis
      by (simp add: outcome_eq executed_final cells_def)
  next
    case 6
    with assms(2) pre [of 0] pre [of 1] pre [of 2] pre [of 3] pre [of 4] show ?thesis
      by (simp add: outcome_eq executed_final cells_def)
  qed
qed

theorem exceptions_propagate_witness:
  "(4 :: nat) < length cells \<and> cells ! 4 = FitModel \<and>
   outcome (\<lambda>c. if c = FitModel then Some (''OSError'', 7 :: nat) else None) (\<lambda>m x y b e w. Suc w) (0 :: nat)
       recorded_time recorded_disk = Inl (FrameworkError ''OSError'') \<and>
   executed (final (\<lambda>c. if c = FitModel then Some (''OSError'', 7 :: nat) else None) (\<lambda>m x y b e w. Suc w)
       (0 :: nat) recorded_time recorded_disk) = [Imports, LoadData, BuildModel, CompileModel, FitModel]"
proof -
  let ?raises = "\<lambda>c. if c = FitModel then Some (''OSError'', 7 :: nat) else None"
  have a: "(4 :: nat) < length cells" and c: "cells ! 4 = FitModel"
    by (simp_all add: cells_def)
  have b: "?raises (cells ! 4) = Some (''OSError'', 7 :: nat)"
    by (simp add: cells_def)
  have d: "\<forall>j<4. ?raises (cells ! j) = None"
    by (simp add: cells_def less_Suc_eq numeral_eq_Suc) 
  have t: "take (Suc 4) cells = [Imports, LoadData, BuildModel, CompileModel, FitModel]"
    by (simp add: cells_def)
  from exceptions_propagate [OF a b d, of "\<lambda>m x y b e w. Suc w" "0 :: nat" recorded_time
      recorded_disk] a c t
  show ?thesis by simp
qed

text \<open>
  Claim C4, as amended. The TensorBoard callback is given the directory \<^verbatim>\<open>./logs/\<close>
  followed by the wall-clock time at which the callback list is built, formatted as
  \<^verbatim>\<open>%Y-%m-%d-%H-%M-%S\<close>, and training creates that directory unless it is there already.
  The name shows the time to the second only. So a run whose time falls in another second
  than the times of all the runs that left the directories under \<^verbatim>\<open>./logs\<close> adds exactly
  one directory there, named by its time.
\<close>

theorem log_directory_per_second:
  assumes "valid_datetime now"
    and "\<forall>t\<in>set earlier. valid_datetime t \<and> to_second t \<noteq> to_second now"
    and "set (ls ''logs'' fs) = stamp ` set earlier"
  shows "callbacks now =
       Inr [TensorBoard (''./logs/'' @ strftime now ''%Y-%m-%d-%H-%M-%S''),
            ModelCheckpoint ''./checkpoints/model{epoch:02d}.h5'' ''epoch''] \<and>
     strftime now ''%Y-%m-%d-%H-%M-%S'' = stamp now \<and>
     stamp now \<notin> set (ls ''logs'' fs) \<and>
     set (ls ''logs'' (disk (final (\<lambda>c. None) step w0 now fs))) =
       insert (stamp now) (set (ls ''logs'' fs)) \<and>
     length (ls ''logs'' (disk (final (\<lambda>c. None) step w0 now fs))) =
       Suc (length (ls ''logs'' fs))"
proof -
  have c: "callbacks now =
       Inr [TensorBoard (''./logs/'' @ strftime now ''%Y-%m-%d-%H-%M-%S''),
            ModelCheckpoint ''./checkpoints/model{epoch:02d}.h5'' ''epoch'']"
    by (simp only: callbacks_eq log_path_def strftime_stamp)
  have new: "stamp now \<notin> set (ls ''logs'' fs)"
  proof
    assume "stamp now \<in> set (ls ''logs'' fs)"
    then obtain t where t: "t \<in> set earlier" and s: "stamp now = stamp t"
      unfolding assms(3) by blast
    from t assms(2) have "valid_datetime t" and "to_second t \<noteq> to_second now" by blast+
    then show False using stamp_inj [OF assms(1) _ s] by simp
  qed
  have after: "set (ls ''logs'' (disk (final (\<lambda>c. None) step w0 now fs))) =
       insert (stamp now) (set (ls ''logs'' fs))"
    by (simp only: disk_final ls_logs_trained)
  have "length (ls ''logs'' (disk (final (\<lambda>c. None) step w0 now fs))) =
       Suc (length (ls ''logs'' fs))"
    unfolding length_ls after using new by simp
  with c new after strftime_stamp [of now] show ?thesis by blast
qed

theorem log_directory_per_second_witness:
  "valid_datetime recorded_time \<and>
   stamp recorded_time = ''2020-05-06-12-51-23'' \<and>
   stamp recorded_time \<notin> set (ls ''logs'' (recorded_disk :: nat world)) \<and>
   length (ls ''logs'' (recorded_disk :: nat world)) = 4 \<and>
   length (ls ''logs'' (disk (final (\<lambda>c. None :: (unit \<times> nat) option) (\<lambda>m x y b e w. Suc w) (0 :: nat)
       recorded_time recorded_disk))) = 5"
proof -
  have d: "set (ls ''logs'' (recorded_disk :: nat world)) = stamp ` set recorded_earlier"
    by (simp only: ls_logs_recorded_disk set_map)
  have l: "length (ls ''logs'' (recorded_disk :: nat world)) = 4"
    by (simp add: ls_logs_recorded_disk recorded_earlier_def)
  from log_directory_per_second [OF valid_recorded_time recorded_earlier_seconds d,
      of "\<lambda>m x y b e w. Suc w" "0 :: nat"]
  have n: "stamp recorded_time \<notin> set (ls ''logs'' (recorded_disk :: nat world))"
    and a: "length (ls ''logs'' (disk (final (\<lambda>c. None :: (unit \<times> nat) option) (\<lambda>m x y b e w. Suc w)
       (0 :: nat) recorded_time recorded_disk))) = Suc (length (ls ''logs'' (recorded_disk :: nat world)))"
    by blast+
  from a have "length (ls ''logs'' (disk (final (\<lambda>c. None :: (unit \<times> nat) option) (\<lambda>m x y b e w. Suc w)
       (0 :: nat) recorded_time recorded_disk))) = 5"
    unfolding l by simp
  with n l stamp_recorded_time valid_recorded_time show ?thesis by blast
qed

text \<open>
  As stated, without the condition on the times, the claim fails: a second run, started
  half a second after the recorded one, is given the same directory name, and the listing
  of \<^verbatim>\<open>./logs\<close> after it is the listing before it. No directory is added.
\<close>

theorem same_second_counterexample:
  "valid_datetime recorded_time \<and>
   valid_datetime (recorded_time\<lparr>microsecond := 500000\<rparr>) \<and>
   recorded_time\<lparr>microsecond := 500000\<rparr> \<noteq> recorded_time \<and>
   ls ''logs''
     (disk (final (\<lambda>c. None :: (unit \<times> nat) option) (\<lambda>m x y b e w. Suc w) (0 :: nat)
        (recorded_time\<lparr>microsecond := 500000\<rparr>)
        (disk (final (\<lambda>c. None :: (unit \<times> nat) option) (\<lambda>m x y b e w. Suc w) (0 :: nat)
           recorded_time recorded_disk)))) =
   ls ''logs''
     (disk (final (\<lambda>c. None :: (unit \<times> nat) option) (\<lambda>m x y b e w. Suc w) (0 :: nat)
        recorded_time recorded_disk))"
proof -
  have "valid_datetime (recorded_time\<lparr>microsecond := 500000\<rparr>)"
    and "recorded_time\<lparr>microsecond := 500000\<rparr> \<noteq> recorded_time"
    by (simp_all add: valid_datetime_def recorded_time_def)
  then show ?thesis
    using valid_recorded_time
    by (simp only: disk_final same_stamp_same_listing [OF stamp_microsecond] simp_thms)
qed

end
